theory Spec2Isabelle
  imports Complex_Main
begin

section \<open>Python values and builtins used by the merge engines\<close>

text \<open>
  Exceptions of the Python runtime that the modelled code can raise or catch.
\<close>

datatype exn = KeyError | TypeError | ValueError | AttributeError | JSONDecodeError

text \<open>
  The scalar values a table cell or an incoming field can hold: \<open>None\<close>, a floating-point
  NaN (what \<open>pd.isna\<close> reports as missing besides \<open>None\<close>), a bool, an unbounded int, a
  finite float, or a str. Strings are sequences of code points below 256.
\<close>

datatype pyval = PNone | PNaN | PBool bool | PInt int | PFloat real | PStr string

definition pd_isna :: "pyval \<Rightarrow> bool" where
  "pd_isna v = (v = PNone \<or> v = PNaN)"

text \<open>\<open>str.isspace\<close> on one code point below 256.\<close>

definition py_isspace :: "char \<Rightarrow> bool" where
  "py_isspace c =
     (let n = (of_char c :: nat)
      in (9 \<le> n \<and> n \<le> 13) \<or> (28 \<le> n \<and> n \<le> 32) \<or> n = 133 \<or> n = 160)"

text \<open>\<open>str.strip()\<close>: leading and trailing whitespace removed.\<close>

definition py_strip :: "string \<Rightarrow> string" where
  "py_strip s = rev (dropWhile py_isspace (rev (dropWhile py_isspace s)))"

text \<open>\<open>str.lower()\<close> on code points below 256 (A-Z, and the Latin-1 capitals but the
  multiplication sign).\<close>

definition py_lower_char :: "char \<Rightarrow> char" where
  "py_lower_char c =
     (let n = (of_char c :: nat)
      in if (65 \<le> n \<and> n \<le> 90) \<or> (192 \<le> n \<and> n \<le> 222 \<and> n \<noteq> 215)
         then char_of (n + 32) else c)"

definition py_lower :: "string \<Rightarrow> string" where
  "py_lower s = map py_lower_char s"

text \<open>\<open>str.startswith\<close>.\<close>

definition startswith :: "string \<Rightarrow> string \<Rightarrow> bool" where
  "startswith s p = (take (length p) s = p)"

text \<open>
  Python's \<open>==\<close> on scalars: numbers (bool, int, float) compare by value, NaN equals
  nothing, \<open>None\<close> equals only \<open>None\<close>, strings compare by content, and values of
  different kinds are unequal.
\<close>

fun py_num :: "pyval \<Rightarrow> real option" where
  "py_num (PBool b) = Some (if b then 1 else 0)"
| "py_num (PInt i) = Some (of_int i)"
| "py_num (PFloat r) = Some r"
| "py_num _ = None"

fun py_eq :: "pyval \<Rightarrow> pyval \<Rightarrow> bool" where
  "py_eq PNone PNone = True"
| "py_eq (PStr s) (PStr t) = (s = t)"
| "py_eq a b = (case (py_num a, py_num b) of (Some x, Some y) \<Rightarrow> x = y | _ \<Rightarrow> False)"

text \<open>
  \<open>current != value\<close> inside the \<open>try\<close> of the OVERWRITE branch. On scalars the
  comparison always yields a bool; the result type keeps the place where the source
  catches \<open>TypeError\<close> and \<open>ValueError\<close>.
\<close>

definition py_ne :: "pyval \<Rightarrow> pyval \<Rightarrow> exn + bool" where
  "py_ne a b = Inr (\<not> py_eq a b)"

section \<open>Empty values\<close>

text \<open>\<open>EMPTY_VALUES\<close> of freshin_ingest_v27.65.py.\<close>

definition EMPTY_VALUES_ingest :: "string list" where
  "EMPTY_VALUES_ingest =
     ['''', ''None'', ''none'', ''nan'', ''NaN'', ''NULL'', ''null'', ''N/A'', ''n/a'', ''<NA>'']"

text \<open>\<open>EMPTY_VALUES\<close> of freshin_meta_merger_v27.72.py.\<close>

definition EMPTY_VALUES_merger :: "string list" where
  "EMPTY_VALUES_merger =
     ['''', ''None'', ''none'', ''nan'', ''NaN'', ''NULL'', ''null'', ''N/A'', ''n/a'', ''<NA>'',
      ''undefined'']"

text \<open>
  \<open>is_empty(val)\<close>, the same body in both modules; \<open>EV\<close> is the module's
  \<open>EMPTY_VALUES\<close>.
\<close>

definition is_empty :: "string list \<Rightarrow> pyval \<Rightarrow> bool" where
  "is_empty EV val =
     (if val = PNone \<or> pd_isna val then True
      else case val of PStr s \<Rightarrow> py_strip s \<in> set EV | _ \<Rightarrow> False)"

section \<open>The canonical table\<close>

text \<open>
  The DataFrame \<open>self.bfd\<close>: its row labels, its column labels and the value of each
  cell. Column dtypes and the storage format are not modelled.
\<close>

record dataframe =
  df_index :: "int list"
  df_columns :: "string list"
  df_cells :: "int \<Rightarrow> string \<Rightarrow> pyval"

text \<open>\<open>df.at[idx, column]\<close> read: a missing row or column label raises \<open>KeyError\<close>.\<close>

definition at_get :: "dataframe \<Rightarrow> int \<Rightarrow> string \<Rightarrow> exn + pyval" where
  "at_get df idx column =
     (if idx \<in> set (df_index df) \<and> column \<in> set (df_columns df)
      then Inr (df_cells df idx column) else Inl KeyError)"

text \<open>
  \<open>df.at[idx, column] = value\<close>: sets the cell; a label that is missing is added
  (setting with enlargement), the other cells of the new row or column being NaN.
\<close>

definition at_set :: "dataframe \<Rightarrow> int \<Rightarrow> string \<Rightarrow> pyval \<Rightarrow> dataframe" where
  "at_set df idx column v =
     \<lparr> df_index = (if idx \<in> set (df_index df) then df_index df else df_index df @ [idx]),
       df_columns =
         (if column \<in> set (df_columns df) then df_columns df else df_columns df @ [column]),
       df_cells = (\<lambda>i c.
         if i = idx \<and> c = column then v
         else if i \<in> set (df_index df) \<and> c \<in> set (df_columns df) then df_cells df i c
         else PNaN) \<rparr>"

section \<open>FreshInIngestionEngine (freshin_ingest_v27.65.py)\<close>

text \<open>
  The engine's table, the column set captured by \<open>load_bfd\<close>, the row count recorded
  by \<open>save\<close>, and the two files \<open>save\<close> writes (the parquet output and the report).
\<close>

record ingest_engine =
  bfd :: dataframe
  bfd_columns :: "string set"
  bfd_rows_end :: nat
  bfd_output :: "dataframe option"
  report_written :: bool

text \<open>\<open>load_bfd\<close>: the table as read, its column set captured.\<close>

definition load_bfd :: "dataframe \<Rightarrow> ingest_engine" where
  "load_bfd df =
     \<lparr> bfd = df, bfd_columns = set (df_columns df), bfd_rows_end = 0,
       bfd_output = None, report_written = False \<rparr>"

text \<open>
  \<open>FreshInIngestionEngine._update_value(idx, column, value, mode)\<close>. The result is
  the returned bool or the exception that escapes, with the engine as the call leaves it.
\<close>

definition update_value ::
  "ingest_engine \<Rightarrow> int \<Rightarrow> string \<Rightarrow> pyval \<Rightarrow> string \<Rightarrow> (exn + bool) \<times> ingest_engine" where
  "update_value s idx column val mode =
     (if column \<notin> bfd_columns s then (Inr False, s)
      else if is_empty EMPTY_VALUES_ingest val then (Inr False, s)
      else case at_get (bfd s) idx column of
        Inl e \<Rightarrow> (Inl e, s)
      | Inr current \<Rightarrow>
          if mode = ''MERGE'' then
            (if is_empty EMPTY_VALUES_ingest current
             then (Inr True, s\<lparr>bfd := at_set (bfd s) idx column val\<rparr>)
             else (Inr False, s))
          else if mode = ''OVERWRITE'' then
            (case (if pd_isna current then Inr True else py_ne current val) of
               Inr b \<Rightarrow>
                 if b then (Inr True, s\<lparr>bfd := at_set (bfd s) idx column val\<rparr>)
                 else (Inr False, s)
             | Inl e \<Rightarrow>
                 if e = TypeError \<or> e = ValueError
                 then (Inr True, s\<lparr>bfd := at_set (bfd s) idx column val\<rparr>)
                 else (Inl e, s))
          else (Inr False, s))"

section \<open>MetadataMerger (freshin_meta_merger_v27.72.py)\<close>

text \<open>\<open>ColumnMapper\<close>: the alias table and the set of canonical names.\<close>

record column_mapper =
  translation_map :: "string \<rightharpoonup> string"
  canonical_columns :: "string set"

text \<open>\<open>ColumnMapper.to_canonical(column_name)\<close>.\<close>

definition to_canonical :: "column_mapper \<Rightarrow> string \<Rightarrow> string" where
  "to_canonical m column_name =
     (if column_name = [] then column_name
      else let col_lower = py_strip (py_lower column_name)
      in case translation_map m col_lower of
           Some c \<Rightarrow> c
         | None \<Rightarrow>
             if col_lower \<in> canonical_columns m then col_lower
             else case translation_map m column_name of
                    Some c \<Rightarrow> c
                  | None \<Rightarrow> column_name)"

text \<open>An entry of the merger's \<open>stats['errors']\<close>.\<close>

datatype merger_error = Unauthorized_columns "string set"

text \<open>
  The merger's mapper, table, captured column set, error list, and the database file
  \<open>save_database\<close> writes.
\<close>

record merger =
  mapper :: column_mapper
  m_bfd :: dataframe
  m_bfd_columns :: "string set"
  stats_errors :: "merger_error list"
  bfd_meta_file :: "dataframe option"

text \<open>\<open>load_database\<close>: the table as read, its column set captured.\<close>

definition load_database :: "column_mapper \<Rightarrow> dataframe \<Rightarrow> merger" where
  "load_database m df =
     \<lparr> mapper = m, m_bfd = df, m_bfd_columns = set (df_columns df), stats_errors = [],
       bfd_meta_file = Some df \<rparr>"

text \<open>\<open>MetadataMerger._update_value(idx, column, value, mode)\<close>.\<close>

definition merger_update_value ::
  "merger \<Rightarrow> int \<Rightarrow> string \<Rightarrow> pyval \<Rightarrow> string \<Rightarrow> (exn + bool) \<times> merger" where
  "merger_update_value s idx column val mode =
     (let canonical_col = to_canonical (mapper s) column
      in if canonical_col \<notin> m_bfd_columns s then (Inr False, s)
      else if is_empty EMPTY_VALUES_merger val then (Inr False, s)
      else case at_get (m_bfd s) idx canonical_col of
        Inl e \<Rightarrow> (Inl e, s)
      | Inr current \<Rightarrow>
          if mode = ''MERGE'' then
            (if is_empty EMPTY_VALUES_merger current
             then (Inr True, s\<lparr>m_bfd := at_set (m_bfd s) idx canonical_col val\<rparr>)
             else (Inr False, s))
          else if mode = ''OVERWRITE'' then
            (case (if pd_isna current then Inr True else py_ne current val) of
               Inr b \<Rightarrow>
                 if b then (Inr True, s\<lparr>m_bfd := at_set (m_bfd s) idx canonical_col val\<rparr>)
                 else (Inr False, s)
             | Inl e \<Rightarrow>
                 if e = TypeError \<or> e = ValueError
                 then (Inr True, s\<lparr>m_bfd := at_set (m_bfd s) idx canonical_col val\<rparr>)
                 else (Inl e, s))
          else (Inr False, s))"

section \<open>The save step and its column check\<close>

text \<open>
  \<open>FreshInIngestionEngine.save()\<close>: records the row count, refuses to write when the
  table has a column outside the captured set, and otherwise writes the parquet output
  and then the report. The result is the returned bool.
\<close>

definition save :: "ingest_engine \<Rightarrow> bool \<times> ingest_engine" where
  "save s =
     (let s1 = s\<lparr>bfd_rows_end := length (df_index (bfd s))\<rparr>;
          final_columns = set (df_columns (bfd s1));
          new_columns = final_columns - bfd_columns s1
      in if new_columns \<noteq> {} then (False, s1)
         else (True, s1\<lparr>bfd_output := Some (bfd s1), report_written := True\<rparr>))"

text \<open>
  \<open>MetadataMerger.save_database()\<close>: the same check; a refusal is also appended to
  \<open>stats['errors']\<close>.
\<close>

definition save_database :: "merger \<Rightarrow> bool \<times> merger" where
  "save_database s =
     (let final_columns = set (df_columns (m_bfd s));
          new_columns = final_columns - m_bfd_columns s
      in if new_columns \<noteq> {}
         then (False, s\<lparr>stats_errors := stats_errors s @ [Unauthorized_columns new_columns]\<rparr>)
         else (True, s\<lparr>bfd_meta_file := Some (m_bfd s)\<rparr>))"

section \<open>Identifier normalisation\<close>

text \<open>Decimal digits of a natural number, and \<open>str(i)\<close> of an int.\<close>

definition digit_char :: "nat \<Rightarrow> char" where
  "digit_char d = char_of (48 + d)"

fun py_str_nat :: "nat \<Rightarrow> string" where
  "py_str_nat n = (if n < 10 then [digit_char n] else py_str_nat (n div 10) @ [digit_char (n mod 10)])"

definition py_str_int :: "int \<Rightarrow> string" where
  "py_str_int i = (if i < 0 then CHR ''-'' # py_str_nat (nat (- i)) else py_str_nat (nat i))"

text \<open>
  \<open>str(val)\<close> of a scalar. The text of a finite float is Python's shortest
  round-trip repr; it is taken as the parameter \<open>float_repr\<close>.
\<close>

fun py_str :: "(real \<Rightarrow> string) \<Rightarrow> pyval \<Rightarrow> string" where
  "py_str float_repr PNone = ''None''"
| "py_str float_repr PNaN = ''nan''"
| "py_str float_repr (PBool b) = (if b then ''True'' else ''False'')"
| "py_str float_repr (PInt i) = py_str_int i"
| "py_str float_repr (PFloat r) = float_repr r"
| "py_str float_repr (PStr s) = s"

text \<open>\<open>str.isdigit()\<close>: a non-empty string of digit characters (for code points below
  256: 0-9 and the superscripts two, three and one).\<close>

definition py_isdigit_char :: "char \<Rightarrow> bool" where
  "py_isdigit_char c =
     (let n = (of_char c :: nat) in (48 \<le> n \<and> n \<le> 57) \<or> n = 178 \<or> n = 179 \<or> n = 185)"

definition py_isdigit :: "string \<Rightarrow> bool" where
  "py_isdigit s = (s \<noteq> [] \<and> list_all py_isdigit_char s)"

text \<open>\<open>str.zfill(width)\<close>: zeros on the left up to the width, after a leading sign.\<close>

definition py_zfill :: "nat \<Rightarrow> string \<Rightarrow> string" where
  "py_zfill width s =
     (if width \<le> length s then s
      else case s of
        c # cs \<Rightarrow>
          if c = CHR ''+'' \<or> c = CHR ''-'' then c # replicate (width - length s) CHR ''0'' @ cs
          else replicate (width - length s) CHR ''0'' @ s
      | [] \<Rightarrow> replicate width CHR ''0'')"

text \<open>
  \<open>normalize_imdb_id(val)\<close> (freshin_meta_merger_v27.72.py and, with the same body,
  freshin_ingest_v27.65.py); \<open>EV\<close> is the module's \<open>EMPTY_VALUES\<close>.
\<close>

definition normalize_imdb_id :: "string list \<Rightarrow> (real \<Rightarrow> string) \<Rightarrow> pyval \<Rightarrow> string option" where
  "normalize_imdb_id EV float_repr val =
     (if is_empty EV val then None
      else let s = py_strip (py_str float_repr val)
      in if py_isdigit s then Some (''tt'' @ py_zfill 7 s)
         else if startswith s ''tt'' then Some s
         else None)"

text \<open>
  \<open>int(s)\<close> of a str in base 10: whitespace around the literal is skipped, one sign
  may lead, and the digits 0-9 may be separated by single underscores. \<open>None\<close> stands
  for the \<open>ValueError\<close> of a rejected literal. Integers are unbounded; the
  interpreter's limit on the number of digits of a decimal literal is left out.
\<close>

definition py_int_isspace :: "char \<Rightarrow> bool" where
  "py_int_isspace c =
     (let n = (of_char c :: nat) in (9 \<le> n \<and> n \<le> 13) \<or> n = 32 \<or> n = 133 \<or> n = 160)"

definition is_ascii_digit :: "char \<Rightarrow> bool" where
  "is_ascii_digit c = (let n = (of_char c :: nat) in 48 \<le> n \<and> n \<le> 57)"

definition digit_value :: "char \<Rightarrow> nat" where
  "digit_value c = of_char c - 48"

fun parse_digits :: "nat \<Rightarrow> string \<Rightarrow> nat option" where
  "parse_digits acc [] = Some acc"
| "parse_digits acc [c] =
     (if is_ascii_digit c then Some (10 * acc + digit_value c) else None)"
| "parse_digits acc (c # d # ds) =
     (if is_ascii_digit c then parse_digits (10 * acc + digit_value c) (d # ds)
      else if c = CHR ''_'' \<and> is_ascii_digit d then parse_digits (10 * acc + digit_value d) ds
      else None)"

definition parse_literal :: "string \<Rightarrow> nat option" where
  "parse_literal s =
     (case s of
        [] \<Rightarrow> None
      | c # cs \<Rightarrow> if is_ascii_digit c then parse_digits (digit_value c) cs else None)"

definition py_int_of_str :: "string \<Rightarrow> int option" where
  "py_int_of_str s =
     (let t = rev (dropWhile py_int_isspace (rev (dropWhile py_int_isspace s)))
      in case t of
        [] \<Rightarrow> None
      | c # cs \<Rightarrow>
          if c = CHR ''-'' then map_option (\<lambda>n. - int n) (parse_literal cs)
          else if c = CHR ''+'' then map_option int (parse_literal cs)
          else map_option int (parse_literal t))"

text \<open>\<open>int(x)\<close> of a finite float: truncation towards zero.\<close>

definition py_int_of_float :: "real \<Rightarrow> int" where
  "py_int_of_float r = (if 0 \<le> r then \<lfloor>r\<rfloor> else \<lceil>r\<rceil>)"

text \<open>The format \<open>{n:07d}\<close>: sign-aware zero padding to width 7.\<close>

definition format_07d :: "int \<Rightarrow> string" where
  "format_07d n = py_zfill 7 (py_str_int n)"

text \<open>
  \<open>DatabaseWriters.convert_imdb_id(numeric_id)\<close> (vdb_freshin_engine.py) on a scalar.
  \<open>int(nan)\<close> raises \<open>ValueError\<close>, which nothing in the function catches. The final
  \<open>return str(numeric_id)\<close> of the source is reached by no scalar.
\<close>

fun convert_imdb_id :: "pyval \<Rightarrow> exn + string option" where
  "convert_imdb_id PNone = Inr None"
| "convert_imdb_id (PStr s) =
     (if startswith s ''tt'' then Inr (Some s)
      else case py_int_of_str s of
        None \<Rightarrow> Inr (Some s)
      | Some n \<Rightarrow> Inr (Some (''tt'' @ format_07d n)))"
| "convert_imdb_id (PBool b) = Inr (Some (''tt'' @ format_07d (if b then 1 else 0)))"
| "convert_imdb_id (PInt n) = Inr (Some (''tt'' @ format_07d n))"
| "convert_imdb_id (PFloat r) = Inr (Some (''tt'' @ format_07d (py_int_of_float r)))"
| "convert_imdb_id PNaN = Inl ValueError"

section \<open>Example data\<close>

text \<open>
  A table of two rows: row 0 has an empty premiere date, row 1 has \<open>Y\<close>. The mapper
  knows one alias.
\<close>

definition demo_table :: dataframe where
  "demo_table =
     \<lparr> df_index = [0, 1], df_columns = [''imdb_id'', ''premiere_date''],
       df_cells = (\<lambda>i c. if c = ''imdb_id'' then PStr ''tt0076759''
                           else if i = 0 then PNaN else PStr ''Y'') \<rparr>"

definition demo_mapper :: column_mapper where
  "demo_mapper =
     \<lparr> translation_map = [''premiere'' \<mapsto> ''premiere_date''],
       canonical_columns = {''imdb_id''} \<rparr>"

text \<open>
  Engines whose table no longer has the columns captured at load: a column was dropped,
  or a column was added by a direct \<open>df.at\<close> write.
\<close>

definition dropped_column_engine :: ingest_engine where
  "dropped_column_engine = (load_bfd demo_table)\<lparr>bfd := demo_table\<lparr>df_columns := [''imdb_id'']\<rparr>\<rparr>"

definition dropped_column_merger :: merger where
  "dropped_column_merger =
     (load_database demo_mapper demo_table)\<lparr>m_bfd := demo_table\<lparr>df_columns := [''imdb_id'']\<rparr>,
        bfd_meta_file := None\<rparr>"

definition added_column_engine :: ingest_engine where
  "added_column_engine = (load_bfd demo_table)\<lparr>bfd := at_set demo_table 0 ''new_column'' (PInt 1)\<rparr>"

section \<open>Batches of the routing engine (vdb_freshin_engine.py)\<close>

text \<open>
  A parsed JSON value, as \<open>json.load\<close> returns it. An object is the list of its items in
  insertion order, its keys distinct.
\<close>

datatype json =
    JNull
  | JBool bool
  | JInt int
  | JFloat real
  | JStr string
  | JList "json list"
  | JDict "(string \<times> json) list"

text \<open>Truth value of a JSON value (\<open>if x:\<close>).\<close>

fun py_truthy :: "json \<Rightarrow> bool" where
  "py_truthy JNull = False"
| "py_truthy (JBool b) = b"
| "py_truthy (JInt i) = (i \<noteq> 0)"
| "py_truthy (JFloat r) = (r \<noteq> 0)"
| "py_truthy (JStr s) = (s \<noteq> [])"
| "py_truthy (JList xs) = (xs \<noteq> [])"
| "py_truthy (JDict kvs) = (kvs \<noteq> [])"

text \<open>\<open>len(x)\<close>: a \<open>TypeError\<close> on a value that has no length.\<close>

fun py_len :: "json \<Rightarrow> exn + nat" where
  "py_len (JStr s) = Inr (length s)"
| "py_len (JList xs) = Inr (length xs)"
| "py_len (JDict kvs) = Inr (length kvs)"
| "py_len _ = Inl TypeError"

text \<open>\<open>isinstance(x, dict)\<close>, \<open>isinstance(x, list)\<close>.\<close>

fun is_dict :: "json \<Rightarrow> bool" where
  "is_dict (JDict kvs) = True"
| "is_dict _ = False"

fun is_list :: "json \<Rightarrow> bool" where
  "is_list (JList xs) = True"
| "is_list _ = False"

text \<open>\<open>d.get(key, default)\<close> and \<open>key in d\<close> on the items of a dict.\<close>

definition dict_get :: "(string \<times> json) list \<Rightarrow> string \<Rightarrow> json \<Rightarrow> json" where
  "dict_get kvs k dflt = (case map_of kvs k of Some v \<Rightarrow> v | None \<Rightarrow> dflt)"

definition dict_has :: "(string \<times> json) list \<Rightarrow> string \<Rightarrow> bool" where
  "dict_has kvs k = (map_of kvs k \<noteq> None)"

text \<open>
  \<open>x.get(key, default)\<close> on any parsed value: only a dict has the method, anything
  else raises \<open>AttributeError\<close>.
\<close>

fun py_get :: "json \<Rightarrow> string \<Rightarrow> json \<Rightarrow> exn + json" where
  "py_get (JDict kvs) k dflt = Inr (dict_get kvs k dflt)"
| "py_get _ k dflt = Inl AttributeError"

text \<open>
  \<open>for x in v\<close>: a list gives its items, a dict its keys, a str its characters; anything
  else is not iterable.
\<close>

fun py_iter :: "json \<Rightarrow> exn + json list" where
  "py_iter (JList xs) = Inr xs"
| "py_iter (JDict kvs) = Inr (map (\<lambda>kv. JStr (fst kv)) kvs)"
| "py_iter (JStr s) = Inr (map (\<lambda>c. JStr [c]) s)"
| "py_iter _ = Inl TypeError"

section \<open>Data types and the classifier\<close>

datatype DataType =
    TITLE_METADATA
  | VIEWERSHIP_DATA
  | PLATFORM_AVAILABILITY
  | PLATFORM_CHANGES
  | FLIXPATROL_TITLES
  | SOCIAL_SIGNALS
  | FINANCIAL_DATA
  | NEWS_EVENTS
  | TRENDING_DATA
  | UNKNOWN

text \<open>\<open>DataType.value\<close>.\<close>

fun value_of :: "DataType \<Rightarrow> string" where
  "value_of TITLE_METADATA = ''title_metadata''"
| "value_of VIEWERSHIP_DATA = ''viewership_data''"
| "value_of PLATFORM_AVAILABILITY = ''platform_avail''"
| "value_of PLATFORM_CHANGES = ''platform_changes''"
| "value_of FLIXPATROL_TITLES = ''flixpatrol_titles''"
| "value_of SOCIAL_SIGNALS = ''social_signals''"
| "value_of FINANCIAL_DATA = ''financial_data''"
| "value_of NEWS_EVENTS = ''news_events''"
| "value_of TRENDING_DATA = ''trending_data''"
| "value_of UNKNOWN = ''unknown''"

text \<open>\<open>DataTypeDetector.SOURCE_MAPPING\<close>.\<close>

definition SOURCE_MAPPING :: "(string \<times> (string \<times> DataType) list) list" where
  "SOURCE_MAPPING =
     [(''tmdb'',
        [(''trending_movies_week'', TRENDING_DATA), (''trending_tv_week'', TRENDING_DATA),
         (''popular_movies'', TITLE_METADATA), (''popular_tv'', TITLE_METADATA),
         (''top_rated_movies'', TITLE_METADATA), (''top_rated_tv'', TITLE_METADATA),
         (''upcoming_movies'', TITLE_METADATA), (''now_playing_movies'', TITLE_METADATA),
         (''on_the_air_tv'', TITLE_METADATA), (''airing_today_tv'', TITLE_METADATA),
         (''movie_genres'', TITLE_METADATA), (''tv_genres'', TITLE_METADATA)]),
      (''flixpatrol'',
        [(''titles'', FLIXPATROL_TITLES), (''default'', FLIXPATROL_TITLES),
         (''rankings'', VIEWERSHIP_DATA), (''points'', VIEWERSHIP_DATA),
         (''top10'', VIEWERSHIP_DATA)]),
      (''streaming_availability'',
        [(''countries'', PLATFORM_AVAILABILITY), (''genres'', TITLE_METADATA),
         (''shows'', PLATFORM_AVAILABILITY), (''new_shows'', PLATFORM_CHANGES)]),
      (''twitter_trends'', [(''places'', SOCIAL_SIGNALS), (''trends'', SOCIAL_SIGNALS)]),
      (''seeking_alpha'', [(''default'', FINANCIAL_DATA), (''company_search'', FINANCIAL_DATA)]),
      (''reuters'',
        [(''default'', NEWS_EVENTS), (''news_technology'', NEWS_EVENTS),
         (''news_media'', NEWS_EVENTS), (''news_business'', NEWS_EVENTS)]),
      (''disney_plus'',
        [(''default'', PLATFORM_AVAILABILITY), (''titles'', PLATFORM_AVAILABILITY),
         (''random_title'', PLATFORM_AVAILABILITY)]),
      (''imdb'', [(''default'', TITLE_METADATA), (''genres'', TITLE_METADATA)])]"

text \<open>\<open>DataTypeDetector._get_skip_reason\<close>.\<close>

definition get_skip_reason :: "string \<Rightarrow> json \<Rightarrow> string" where
  "get_skip_reason source data_type = ''unknown_data_type''"

text \<open>
  \<open>DataTypeDetector._detect_from_content(data)\<close>: the lowered key names of a dict
  against the keyword sets, in the order of the source.
\<close>

definition detect_from_content :: "json \<Rightarrow> DataType" where
  "detect_from_content data =
     (let keys = (case data of JDict kvs \<Rightarrow> set (map (\<lambda>kv. py_lower (fst kv)) kvs) | _ \<Rightarrow> {})
      in if keys \<inter> {''views'', ''hours_viewed'', ''points'', ''ranking'', ''watch_time''} \<noteq> {}
         then VIEWERSHIP_DATA
         else if keys \<inter> {''imdb_id'', ''tmdb_id'', ''title'', ''premiere'', ''genres''} \<noteq> {}
         then TITLE_METADATA
         else if keys \<inter> {''services'', ''streaming'', ''platform'', ''availability'',
                            ''countrycode''} \<noteq> {}
         then PLATFORM_AVAILABILITY
         else if keys \<inter> {''changes'', ''shows''} \<noteq> {} \<and> ''changes'' \<in> keys
         then PLATFORM_CHANGES
         else if keys \<inter> {''trending'', ''trends'', ''hashtags'', ''mentions'', ''sentiment''} \<noteq> {}
         then SOCIAL_SIGNALS
         else if keys \<inter> {''revenue'', ''subscribers'', ''stock'', ''market_cap'', ''earnings''} \<noteq> {}
         then FINANCIAL_DATA
         else UNKNOWN)"

text \<open>
  \<open>data_type in type_map\<close> for a batch type read from JSON: a str is looked up, a list or
  a dict is unhashable (\<open>TypeError\<close>), any other value is no key of the table.
\<close>

fun type_lookup :: "(string \<times> DataType) list \<Rightarrow> json \<Rightarrow> exn + DataType option" where
  "type_lookup type_map (JStr t) = Inr (map_of type_map t)"
| "type_lookup type_map (JList xs) = Inl TypeError"
| "type_lookup type_map (JDict kvs) = Inl TypeError"
| "type_lookup type_map _ = Inr None"

text \<open>
  The part of \<open>detect\<close> after the provider table: content sniffing when there is a
  non-empty payload, \<open>unknown_source\<close> otherwise.
\<close>

definition detect_fallback :: "json \<Rightarrow> DataType \<times> string" where
  "detect_fallback data =
     (if py_truthy data then
        (let dt = detect_from_content data
         in if dt = UNKNOWN then (dt, ''unknown_data_type'') else (dt, ''''))
      else (UNKNOWN, ''unknown_source''))"

text \<open>
  \<open>DataTypeDetector.detect(source, data_type, data)\<close>. The source and the batch type
  are what the batch carries; \<open>source.lower()\<close> raises \<open>AttributeError\<close> on anything
  but a str. \<open>data\<close> is the payload when it is a dict and \<open>JNull\<close> (\<open>None\<close>) otherwise.
\<close>

definition detect :: "json \<Rightarrow> json \<Rightarrow> json \<Rightarrow> exn + (DataType \<times> string)" where
  "detect source data_type data =
     (case source of
        JStr src \<Rightarrow>
          (let source_lower = py_lower src
           in case map_of SOURCE_MAPPING source_lower of
                Some type_map \<Rightarrow>
                  (case (if py_truthy data_type then type_lookup type_map data_type
                         else Inr None) of
                     Inl e \<Rightarrow> Inl e
                   | Inr (Some dt) \<Rightarrow>
                       if dt = UNKNOWN then Inr (dt, get_skip_reason source_lower data_type)
                       else Inr (dt, '''')
                   | Inr None \<Rightarrow>
                       (case map_of type_map ''default'' of
                          Some d \<Rightarrow> Inr (d, '''')
                        | None \<Rightarrow> Inr (detect_fallback data)))
              | None \<Rightarrow> Inr (detect_fallback data))
      | _ \<Rightarrow> Inl AttributeError)"

section \<open>The router\<close>

text \<open>
  The text of a decision's \<open>reason\<close>: the f-string is kept as its arguments,
  \<open>Routed {data_type.value} to {target}\<close> or \<open>{source}/{batch_type} -> {target_db}\<close>.
\<close>

datatype reason_text = Routed_to string string | Batch_to json json string

record RoutingDecision =
  source_file :: string
  data_type :: DataType
  target_db :: string
  action :: string
  records_count :: nat
  key_field :: string
  confidence :: real
  reason :: reason_text
  skip_reason :: string
  sample_records :: "json list"

text \<open>\<open>RoutingEngine.ROUTING_TABLE\<close>: target, action and key of each data type.\<close>

fun ROUTING_TABLE :: "DataType \<Rightarrow> string \<times> string \<times> string option" where
  "ROUTING_TABLE TITLE_METADATA = (''BFD'', ''merge'', Some ''tmdb_id'')"
| "ROUTING_TABLE VIEWERSHIP_DATA = (''VIEWS_TRAINING'', ''append'', Some ''imdb_id'')"
| "ROUTING_TABLE PLATFORM_AVAILABILITY = (''COMPONENTS'', ''update'', Some ''country'')"
| "ROUTING_TABLE PLATFORM_CHANGES = (''PLATFORM_MASTER'', ''update'', Some ''imdb_id'')"
| "ROUTING_TABLE FLIXPATROL_TITLES = (''BFD'', ''merge'', Some ''imdb_id'')"
| "ROUTING_TABLE SOCIAL_SIGNALS = (''ABSTRACT_DATA'', ''append'', Some ''date'')"
| "ROUTING_TABLE FINANCIAL_DATA = (''ABSTRACT_DATA'', ''append'', Some ''date'')"
| "ROUTING_TABLE NEWS_EVENTS = (''ABSTRACT_DATA'', ''append'', Some ''date'')"
| "ROUTING_TABLE TRENDING_DATA = (''BFD'', ''update'', Some ''tmdb_id'')"
| "ROUTING_TABLE UNKNOWN = (''SKIP'', ''skip'', None)"

text \<open>\<open>RoutingEngine.route(data_type, source_file, records_count, skip_reason)\<close>.\<close>

definition route :: "DataType \<Rightarrow> string \<Rightarrow> nat \<Rightarrow> string \<Rightarrow> RoutingDecision" where
  "route dt src_file cnt skip =
     (case ROUTING_TABLE dt of
        (target, act, key) \<Rightarrow>
          \<lparr> source_file = src_file, data_type = dt, target_db = target, action = act,
            records_count = cnt,
            key_field = (case key of Some k \<Rightarrow> k | None \<Rightarrow> ''''),
            confidence = (if dt \<noteq> UNKNOWN then 1 else 1 / 2),
            reason = Routed_to (value_of dt) target,
            skip_reason = skip, sample_records = [] \<rparr>)"

section \<open>Run statistics and the writers\<close>

record MergeResult =
  mr_target :: string
  mr_action :: string
  total_records :: nat
  new_records :: nat
  updated_records :: nat
  skipped_records :: nat
  mr_key_field :: string
  sample_keys :: "string list"
  fields_updated :: "string list"
  mr_reason :: string

text \<open>An entry of \<open>stats.skip_details\<close>.\<close>

record skip_detail =
  sd_source :: string
  sd_type :: string
  sd_count :: nat
  sd_reason :: string

text \<open>
  \<open>ProcessingStats\<close>. An entry of \<open>errors\<close> is the text
  \<open>{filepath.name}: {e}\<close>, kept as the file name and the exception.
\<close>

record ProcessingStats =
  files_processed :: nat
  records_routed :: nat
  bfd_updates :: nat
  bfd_new :: nat
  star_schema_updates :: nat
  views_training_appends :: nat
  abstract_data_appends :: nat
  components_updates :: nat
  platform_changes_processed :: nat
  flixpatrol_titles_processed :: nat
  skipped :: nat
  errors :: "(string \<times> exn) list"
  skip_details :: "skip_detail list"
  merge_results :: "MergeResult list"

definition new_stats :: ProcessingStats where
  "new_stats =
     \<lparr> files_processed = 0, records_routed = 0, bfd_updates = 0, bfd_new = 0,
       star_schema_updates = 0, views_training_appends = 0, abstract_data_appends = 0,
       components_updates = 0, platform_changes_processed = 0,
       flixpatrol_titles_processed = 0, skipped = 0, errors = [], skip_details = [],
       merge_results = [] \<rparr>"

text \<open>
  \<open>DatabaseWriters\<close> is an external collaborator: its methods read and write target
  stores, the clock and the dry-run flag. Each method is a parameter: from its arguments
  and the state \<open>'w\<close> of what it touches, it gives the \<open>MergeResult\<close> it returns or the
  exception it raises, and the new state. \<open>read_parquet\<close> gives the row count of the
  frame it loads.
\<close>

record 'w DatabaseWriters =
  merge_to_bfd :: "json list \<Rightarrow> string \<Rightarrow> 'w \<Rightarrow> (exn + MergeResult) \<times> 'w"
  merge_flixpatrol_to_bfd :: "json list \<Rightarrow> 'w \<Rightarrow> (exn + MergeResult) \<times> 'w"
  update_platform_availability :: "json \<Rightarrow> 'w \<Rightarrow> (exn + MergeResult) \<times> 'w"
  append_to_views_training :: "json list \<Rightarrow> string \<Rightarrow> 'w \<Rightarrow> (exn + MergeResult) \<times> 'w"
  append_to_abstract_data :: "json list \<Rightarrow> string \<Rightarrow> 'w \<Rightarrow> (exn + MergeResult) \<times> 'w"
  update_streaming_lookup :: "json \<Rightarrow> string \<Rightarrow> 'w \<Rightarrow> (exn + MergeResult) \<times> 'w"
  read_parquet :: "string \<Rightarrow> 'w \<Rightarrow> (exn + nat) \<times> 'w"

section \<open>VDBFreshInEngine\<close>

text \<open>
  An input file of the FreshIn directory: its name, its modification time, and what
  \<open>json.load\<close> returns on it (\<open>None\<close> when it raises).
\<close>

record fresh_file =
  f_name :: string
  f_mtime :: int
  f_json :: "json option"

text \<open>
  The engine: its fields, and the state \<open>world\<close> of what the writers touch.
  \<open>writers\<close> tells whether \<open>self.writers\<close> has been created.
\<close>

record 'w engine =
  dry_run :: bool
  stats :: ProcessingStats
  writers :: bool
  processed_files :: "string set"
  discovered_files :: "fresh_file list"
  all_decisions :: "RoutingDecision list"
  world :: 'w

text \<open>\<open>str.split('_')[0]\<close>: the text before the first underscore.\<close>

definition before_underscore :: "string \<Rightarrow> string" where
  "before_underscore s = takeWhile (\<lambda>c. c \<noteq> CHR ''_'') s"

text \<open>
  \<open>Path.suffix\<close> and \<open>Path.stem\<close> of a file name: split at the last dot, unless it is
  the first or the last character or there is none.
\<close>

definition last_dot :: "string \<Rightarrow> nat option" where
  "last_dot name =
     (let r = takeWhile (\<lambda>c. c \<noteq> CHR ''.'') (rev name)
      in if length r = length name then None else Some (length name - length r - 1))"

definition suffix_of :: "string \<Rightarrow> string" where
  "suffix_of name =
     (case last_dot name of
        Some i \<Rightarrow> if 0 < i \<and> i < length name - 1 then drop i name else []
      | None \<Rightarrow> [])"

definition stem :: "string \<Rightarrow> string" where
  "stem name =
     (case last_dot name of
        Some i \<Rightarrow> if 0 < i \<and> i < length name - 1 then take i name else name
      | None \<Rightarrow> name)"

text \<open>\<open>_normalize_to_records(data, data_type)\<close>.\<close>

definition normalize_items :: "json list \<Rightarrow> json list" where
  "normalize_items xs =
     concat (map (\<lambda>item.
        case item of
          JDict kvs \<Rightarrow>
            (if dict_has kvs ''data'' \<and> is_dict (dict_get kvs ''data'' JNull)
             then [dict_get kvs ''data'' JNull] else [item])
        | _ \<Rightarrow> []) xs)"

definition normalize_to_records :: "json \<Rightarrow> DataType \<Rightarrow> json list" where
  "normalize_to_records data dt =
     (case data of
        JList xs \<Rightarrow> normalize_items xs
      | JDict kvs \<Rightarrow>
          (if dict_has kvs ''data'' \<and> is_list (dict_get kvs ''data'' JNull)
           then (case dict_get kvs ''data'' JNull of JList ys \<Rightarrow> normalize_items ys | _ \<Rightarrow> [])
           else if dict_has kvs ''results'' \<and> is_list (dict_get kvs ''results'' JNull)
           then (case dict_get kvs ''results'' JNull of JList ys \<Rightarrow> normalize_items ys | _ \<Rightarrow> [])
           else [data])
      | _ \<Rightarrow> [])"

text \<open>Creating \<open>self.writers\<close> when it is \<open>None\<close>.\<close>

definition ensure_writers :: "'w engine \<Rightarrow> 'w engine" where
  "ensure_writers e = e\<lparr>writers := True\<rparr>"

text \<open>
  \<open>_handle_platform_changes(data)\<close>. The progress message evaluates \<open>len(changes)\<close>
  and \<open>len(shows)\<close> before the writer is called.
\<close>

definition handle_platform_changes ::
  "'w DatabaseWriters \<Rightarrow> 'w engine \<Rightarrow> json \<Rightarrow> (exn + unit) \<times> 'w engine" where
  "handle_platform_changes W e data =
     (case data of
        JDict kvs \<Rightarrow>
          (let changes = dict_get kvs ''changes'' (JList []);
               shows = dict_get kvs ''shows'' (JDict [])
           in if \<not> py_truthy changes then (Inr (), e)
              else case py_len changes of
                Inl x \<Rightarrow> (Inl x, e)
              | Inr n \<Rightarrow>
                  (case py_len shows of
                     Inl x \<Rightarrow> (Inl x, e)
                   | Inr m \<Rightarrow>
                       (case update_platform_availability W data (world e) of
                          (Inl x, w') \<Rightarrow> (Inl x, e\<lparr>world := w'\<rparr>)
                        | (Inr result, w') \<Rightarrow>
                            (Inr (), e\<lparr>world := w',
                               stats := (stats e)\<lparr>
                                 platform_changes_processed :=
                                   platform_changes_processed (stats e) + new_records result,
                                 merge_results := merge_results (stats e) @ [result],
                                 records_routed := records_routed (stats e) + n\<rparr>\<rparr>))))
      | _ \<Rightarrow> (Inr (), e))"

text \<open>\<open>_handle_flixpatrol_titles(data)\<close>.\<close>

definition flixpatrol_records :: "json \<Rightarrow> json list" where
  "flixpatrol_records data =
     (case data of
        JDict kvs \<Rightarrow>
          (if dict_has kvs ''data'' then
             (case dict_get kvs ''data'' JNull of
                JList inner \<Rightarrow> inner
              | JDict inner \<Rightarrow> [JDict inner]
              | _ \<Rightarrow> [])
           else [data])
      | JList xs \<Rightarrow> xs
      | _ \<Rightarrow> [])"

definition handle_flixpatrol_titles ::
  "'w DatabaseWriters \<Rightarrow> 'w engine \<Rightarrow> json \<Rightarrow> (exn + unit) \<times> 'w engine" where
  "handle_flixpatrol_titles W e data =
     (let records = flixpatrol_records data
      in if records = [] then (Inr (), e)
         else case merge_flixpatrol_to_bfd W records (world e) of
           (Inl x, w') \<Rightarrow> (Inl x, e\<lparr>world := w'\<rparr>)
         | (Inr result, w') \<Rightarrow>
             (Inr (), e\<lparr>world := w',
                stats := (stats e)\<lparr>
                  flixpatrol_titles_processed :=
                    flixpatrol_titles_processed (stats e) + total_records result,
                  bfd_updates := bfd_updates (stats e) + total_records result,
                  bfd_new := bfd_new (stats e) + new_records result,
                  merge_results := merge_results (stats e) @ [result],
                  records_routed := records_routed (stats e) + total_records result\<rparr>\<rparr>))"

text \<open>
  The COMPONENTS branch of \<open>_execute_decision\<close>: one lookup update for each item of
  the dict whose key is not \<open>type\<close> or \<open>source\<close> and whose value is a dict.
\<close>

fun update_countries ::
  "'w DatabaseWriters \<Rightarrow> 'w engine \<Rightarrow> (string \<times> json) list \<Rightarrow> (exn + unit) \<times> 'w engine" where
  "update_countries W e [] = (Inr (), e)"
| "update_countries W e ((country, country_data) # rest) =
     (if country \<notin> {''type'', ''source''} \<and> is_dict country_data then
        (case update_streaming_lookup W country_data country (world e) of
           (Inl x, w') \<Rightarrow> (Inl x, e\<lparr>world := w'\<rparr>)
         | (Inr result, w') \<Rightarrow>
             update_countries W
               (e\<lparr>world := w',
                  stats := (stats e)\<lparr>
                    components_updates := components_updates (stats e) + 1,
                    merge_results := merge_results (stats e) @ [result]\<rparr>\<rparr>) rest)
      else update_countries W e rest)"

text \<open>\<open>_execute_decision(decision, data)\<close>.\<close>

definition execute_decision ::
  "'w DatabaseWriters \<Rightarrow> 'w engine \<Rightarrow> RoutingDecision \<Rightarrow> json \<Rightarrow> (exn + unit) \<times> 'w engine" where
  "execute_decision W e decision data =
     (if action decision = ''skip'' then
        (Inr (), e\<lparr>stats := (stats e)\<lparr>
           skipped := skipped (stats e) + records_count decision,
           skip_details := skip_details (stats e) @
             [\<lparr> sd_source = source_file decision, sd_type = value_of (data_type decision),
                sd_count = records_count decision, sd_reason = skip_reason decision \<rparr>]\<rparr>\<rparr>)
      else
        (let e1 = ensure_writers e
         in if data_type decision = PLATFORM_CHANGES then handle_platform_changes W e1 data
            else if data_type decision = FLIXPATROL_TITLES then handle_flixpatrol_titles W e1 data
            else
              (let records = normalize_to_records data (data_type decision);
                   routed = (\<lambda>e2. (Inr (), e2\<lparr>stats := (stats e2)\<lparr>
                       records_routed := records_routed (stats e2) + records_count decision\<rparr>\<rparr>))
               in if target_db decision = ''BFD'' then
                    (case merge_to_bfd W records (key_field decision) (world e1) of
                       (Inl x, w') \<Rightarrow> (Inl x, e1\<lparr>world := w'\<rparr>)
                     | (Inr result, w') \<Rightarrow>
                         routed (e1\<lparr>world := w',
                           stats := (stats e1)\<lparr>
                             bfd_updates := bfd_updates (stats e1) + total_records result,
                             bfd_new := bfd_new (stats e1) + new_records result,
                             merge_results := merge_results (stats e1) @ [result]\<rparr>\<rparr>))
                  else if target_db decision = ''VIEWS_TRAINING'' then
                    (case append_to_views_training W records
                            (before_underscore (source_file decision)) (world e1) of
                       (Inl x, w') \<Rightarrow> (Inl x, e1\<lparr>world := w'\<rparr>)
                     | (Inr result, w') \<Rightarrow>
                         routed (e1\<lparr>world := w',
                           stats := (stats e1)\<lparr>
                             views_training_appends :=
                               views_training_appends (stats e1) + total_records result,
                             merge_results := merge_results (stats e1) @ [result]\<rparr>\<rparr>))
                  else if target_db decision = ''ABSTRACT_DATA'' then
                    (case append_to_abstract_data W records (value_of (data_type decision))
                            (world e1) of
                       (Inl x, w') \<Rightarrow> (Inl x, e1\<lparr>world := w'\<rparr>)
                     | (Inr result, w') \<Rightarrow>
                         routed (e1\<lparr>world := w',
                           stats := (stats e1)\<lparr>
                             abstract_data_appends :=
                               abstract_data_appends (stats e1) + total_records result,
                             merge_results := merge_results (stats e1) @ [result]\<rparr>\<rparr>))
                  else if target_db decision = ''COMPONENTS'' then
                    (case data of
                       JDict kvs \<Rightarrow>
                         (case update_countries W e1 kvs of
                            (Inl x, e2) \<Rightarrow> (Inl x, e2)
                          | (Inr u, e2) \<Rightarrow> routed e2)
                     | _ \<Rightarrow> routed e1)
                  else routed e1)))"

text \<open>
  The record count of \<open>_route_batch\<close>: the length of a list, of the \<open>data\<close> list of a
  dict, or of the \<open>changes\<close> of a dict, and 1 otherwise.
\<close>

definition batch_count :: "json \<Rightarrow> exn + nat" where
  "batch_count data =
     (case data of
        JList xs \<Rightarrow> Inr (length xs)
      | JDict kvs \<Rightarrow>
          (if dict_has kvs ''data'' then
             (case dict_get kvs ''data'' JNull of JList inner \<Rightarrow> Inr (length inner) | _ \<Rightarrow> Inr 1)
           else if dict_has kvs ''changes'' then py_len (dict_get kvs ''changes'' (JList []))
           else Inr 1)
      | _ \<Rightarrow> Inr 1)"

text \<open>\<open>_route_batch(source, batch_type, data, filename)\<close>.\<close>

definition route_batch ::
  "'w DatabaseWriters \<Rightarrow> 'w engine \<Rightarrow> json \<Rightarrow> json \<Rightarrow> json \<Rightarrow> string
     \<Rightarrow> (exn + RoutingDecision) \<times> 'w engine" where
  "route_batch W e source batch_type data filename =
     (case batch_count data of
        Inl x \<Rightarrow> (Inl x, e)
      | Inr cnt \<Rightarrow>
          (case detect source batch_type (if is_dict data then data else JNull) of
             Inl x \<Rightarrow> (Inl x, e)
           | Inr (dt, skip) \<Rightarrow>
               (let decision = (route dt filename cnt skip)
                      \<lparr>reason := Batch_to source batch_type (target_db (route dt filename cnt skip))\<rparr>
                in case execute_decision W e decision data of
                     (Inl x, e') \<Rightarrow> (Inl x, e')
                   | (Inr u, e') \<Rightarrow> (Inr decision, e'))))"

section \<open>Files, discovery and the run\<close>

text \<open>\<open>sub in s\<close> on strings.\<close>

fun py_contains :: "string \<Rightarrow> string \<Rightarrow> bool" where
  "py_contains sub [] = (sub = [])"
| "py_contains sub (c # cs) = (take (length sub) (c # cs) = sub \<or> py_contains sub cs)"

text \<open>
  The batches of a file, one after the other: \<open>source\<close>, \<open>type\<close> and \<open>data\<close> are
  read with \<open>get\<close>, the batch is routed and executed, and its decision is appended. The
  first exception ends the loop.
\<close>

fun process_batches ::
  "'w DatabaseWriters \<Rightarrow> 'w engine \<Rightarrow> string \<Rightarrow> json \<Rightarrow> json list \<Rightarrow> RoutingDecision list
     \<Rightarrow> (exn + RoutingDecision list) \<times> 'w engine" where
  "process_batches W e filename default_source [] decisions = (Inr decisions, e)"
| "process_batches W e filename default_source (batch # rest) decisions =
     (case py_get batch ''source'' default_source of
        Inl x \<Rightarrow> (Inl x, e)
      | Inr source \<Rightarrow>
          (case py_get batch ''type'' (JStr ''default'') of
             Inl x \<Rightarrow> (Inl x, e)
           | Inr batch_type \<Rightarrow>
               (case py_get batch ''data'' batch of
                  Inl x \<Rightarrow> (Inl x, e)
                | Inr batch_data \<Rightarrow>
                    (case route_batch W e source batch_type batch_data filename of
                       (Inl x, e') \<Rightarrow> (Inl x, e')
                     | (Inr decision, e') \<Rightarrow>
                         process_batches W e' filename default_source rest
                           (decisions @ [decision])))))"

text \<open>\<open>_process_json(filepath)\<close>.\<close>

definition process_json ::
  "'w DatabaseWriters \<Rightarrow> 'w engine \<Rightarrow> fresh_file \<Rightarrow> (exn + RoutingDecision list) \<times> 'w engine" where
  "process_json W e file =
     (case f_json file of
        None \<Rightarrow> (Inl JSONDecodeError, e)
      | Some data \<Rightarrow>
          (case data of
             JList items \<Rightarrow> process_batches W e (f_name file) (JStr ''unknown'') items []
           | JDict kvs \<Rightarrow>
               (if dict_has kvs ''results'' then
                  (case py_iter (dict_get kvs ''results'' JNull) of
                     Inl x \<Rightarrow> (Inl x, e)
                   | Inr items \<Rightarrow>
                       process_batches W e (f_name file)
                         (JStr (before_underscore (stem (f_name file)))) items [])
                else
                  (case route_batch W e (JStr (before_underscore (stem (f_name file))))
                          (JStr ''default'') data (f_name file) of
                     (Inl x, e') \<Rightarrow> (Inl x, e')
                   | (Inr decision, e') \<Rightarrow> (Inr [decision], e')))
           | _ \<Rightarrow> (Inr [], e)))"

text \<open>\<open>_process_parquet(filepath)\<close>.\<close>

definition process_parquet ::
  "'w DatabaseWriters \<Rightarrow> 'w engine \<Rightarrow> fresh_file \<Rightarrow> (exn + RoutingDecision list) \<times> 'w engine" where
  "process_parquet W e file =
     (let e1 = ensure_writers e
      in case read_parquet W (f_name file) (world e1) of
           (Inl x, w') \<Rightarrow> (Inl x, e1\<lparr>world := w'\<rparr>)
         | (Inr n, w') \<Rightarrow>
             (let decision =
                    (if py_contains ''cranberry_fresh'' (f_name file)
                     then route TITLE_METADATA (f_name file) n ''''
                     else route UNKNOWN (f_name file) n ''unknown_data_type'')
              in case execute_decision W (e1\<lparr>world := w'\<rparr>) decision (JList []) of
                   (Inl x, e') \<Rightarrow> (Inl x, e')
                 | (Inr u, e') \<Rightarrow> (Inr [decision], e')))"

text \<open>
  The body of the \<open>try\<close> in \<open>process_file\<close>, up to the marking: the file is handled
  by its suffix.
\<close>

definition try_body ::
  "'w DatabaseWriters \<Rightarrow> 'w engine \<Rightarrow> fresh_file \<Rightarrow> (exn + RoutingDecision list) \<times> 'w engine" where
  "try_body W e file =
     (if suffix_of (f_name file) = ''.json'' then process_json W e file
      else if suffix_of (f_name file) = ''.parquet'' then process_parquet W e file
      else (Inr [], e))"

text \<open>
  \<open>process_file(filepath)\<close>: the file is added to \<open>processed_files\<close> only when the
  \<open>try\<close> body runs to its end; an exception is recorded in \<open>stats.errors\<close> and the
  decisions returned are the empty list.
\<close>

definition process_file ::
  "'w DatabaseWriters \<Rightarrow> 'w engine \<Rightarrow> fresh_file \<Rightarrow> RoutingDecision list \<times> 'w engine" where
  "process_file W e file =
     (case try_body W e file of
        (Inr decisions, e') \<Rightarrow>
          (decisions,
           e'\<lparr>processed_files := insert (f_name file) (processed_files e'),
              stats := (stats e')\<lparr>files_processed := files_processed (stats e') + 1\<rparr>\<rparr>)
      | (Inl x, e') \<Rightarrow>
          ([], e'\<lparr>stats := (stats e')\<lparr>errors := errors (stats e') @ [(f_name file, x)]\<rparr>\<rparr>))"

text \<open>The name patterns of \<open>discover_fresh_files\<close>, each a prefix and a suffix around
  one \<open>*\<close>.\<close>

definition patterns :: "(string \<times> string) list" where
  "patterns =
     [(''fresh_data_'', ''.json''), (''tmdb_'', ''.json''), (''flixpatrol_'', ''.json''),
      (''streaming_availability_'', ''.json''), (''twitter_trends_'', ''.json''),
      (''seeking_alpha_'', ''.json''), (''reuters_'', ''.json''), (''disney_plus_'', ''.json''),
      (''imdb_'', ''.json''), (''cranberry_fresh_'', ''.parquet'')]"

definition glob_match :: "string \<times> string \<Rightarrow> string \<Rightarrow> bool" where
  "glob_match p name =
     (length (fst p) + length (snd p) \<le> length name
      \<and> take (length (fst p)) name = fst p
      \<and> drop (length name - length (snd p)) name = snd p)"

text \<open>
  \<open>discover_fresh_files(date_filter)\<close> over the listing \<open>dir\<close> of the FreshIn
  directory: the files of each pattern, those whose name contains the date tag when one
  is given, those not yet processed, newest first.
\<close>

definition discover_fresh_files ::
  "'w engine \<Rightarrow> fresh_file list \<Rightarrow> string option \<Rightarrow> fresh_file list \<times> 'w engine" where
  "discover_fresh_files e dir date_filter =
     (let files = concat (map (\<lambda>p. filter (\<lambda>f. glob_match p (f_name f)) dir) patterns);
          files1 = (case date_filter of
                      Some d \<Rightarrow> if d \<noteq> [] then filter (\<lambda>f. py_contains d (f_name f)) files
                                else files
                    | None \<Rightarrow> files);
          files2 = filter (\<lambda>f. f_name f \<notin> processed_files e) files1;
          files3 = sort_key (\<lambda>f. - f_mtime f) files2
      in (files3, e\<lparr>discovered_files := files3\<rparr>))"

text \<open>The loop of \<open>run\<close> over the discovered files.\<close>

fun process_files :: "'w DatabaseWriters \<Rightarrow> 'w engine \<Rightarrow> fresh_file list \<Rightarrow> 'w engine" where
  "process_files W e [] = e"
| "process_files W e (file # rest) =
     (case process_file W e file of
        (decisions, e') \<Rightarrow>
          process_files W (e'\<lparr>all_decisions := all_decisions e' @ decisions\<rparr>) rest)"

text \<open>
  The engine state file: the persisted set of processed file names, \<open>None\<close> when the
  file is missing or unreadable. \<open>__init__\<close> with \<open>_load_state\<close> starts an engine
  from it; \<open>_save_state\<close> writes it, and leaves it as it was when the write fails.
\<close>

definition new_engine :: "bool \<Rightarrow> string set option \<Rightarrow> 'w \<Rightarrow> 'w engine" where
  "new_engine dry state_file w =
     \<lparr> dry_run = dry, stats = new_stats, writers = False,
       processed_files = (case state_file of Some names \<Rightarrow> names | None \<Rightarrow> {}),
       discovered_files = [], all_decisions = [], world = w \<rparr>"

definition save_state :: "'w engine \<Rightarrow> bool \<Rightarrow> string set option \<Rightarrow> string set option" where
  "save_state e writable state_file = (if writable then Some (processed_files e) else state_file)"

text \<open>
  The date tag \<open>run\<close> passes to discovery: none with \<open>process_all\<close>, the given one,
  or today's.
\<close>

definition effective_filter :: "string \<Rightarrow> string option \<Rightarrow> bool \<Rightarrow> string option" where
  "effective_filter today date_filter process_all =
     (let date_filter1 = (if date_filter = None \<and> \<not> process_all then Some today else date_filter)
      in if \<not> process_all then date_filter1 else None)"

text \<open>
  \<open>run(date_filter, process_all)\<close>, with today's date tag, the directory listing,
  whether the state file can be written, and the state file before the run. The result
  is the engine and the state file after the run. The audit report reads the engine and
  changes nothing of it.
\<close>

definition run ::
  "'w DatabaseWriters \<Rightarrow> 'w engine \<Rightarrow> fresh_file list \<Rightarrow> string \<Rightarrow> string option \<Rightarrow> bool
     \<Rightarrow> bool \<Rightarrow> string set option \<Rightarrow> 'w engine \<times> string set option" where
  "run W e dir today date_filter process_all writable state_file =
     (case discover_fresh_files e dir (effective_filter today date_filter process_all) of
        (files, e1) \<Rightarrow>
          if files = [] then (e1, state_file)
          else (let e2 = process_files W e1 files
                in (e2, save_state e2 writable state_file)))"

section \<open>Example writers and files\<close>

text \<open>
  Writers over a world that counts their calls; each reports every record it is given as
  written. They stand in for \<open>DatabaseWriters\<close> where a concrete run is evaluated.
\<close>

definition demo_result :: "string \<Rightarrow> string \<Rightarrow> nat \<Rightarrow> MergeResult" where
  "demo_result target act n =
     \<lparr> mr_target = target, mr_action = act, total_records = n, new_records = n,
       updated_records = 0, skipped_records = 0, mr_key_field = ''imdb_id'', sample_keys = [],
       fields_updated = [], mr_reason = [] \<rparr>"

definition demo_writers :: "nat DatabaseWriters" where
  "demo_writers =
     \<lparr> merge_to_bfd = (\<lambda>records key w. (Inr (demo_result ''BFD'' ''merge'' (length records)), w + 1)),
       merge_flixpatrol_to_bfd =
         (\<lambda>records w. (Inr (demo_result ''BFD'' ''merge'' (length records)), w + 1)),
       update_platform_availability =
         (\<lambda>data w. (Inr (demo_result ''PLATFORM_MASTER'' ''update'' 1), w + 1)),
       append_to_views_training =
         (\<lambda>records source w.
            (Inr (demo_result ''VIEWS_TRAINING'' ''append'' (length records)), w + 1)),
       append_to_abstract_data =
         (\<lambda>records signal w.
            (Inr (demo_result ''ABSTRACT_DATA'' ''append'' (length records)), w + 1)),
       update_streaming_lookup =
         (\<lambda>country_data country w. (Inr (demo_result ''COMPONENTS'' ''update'' 1), w + 1)),
       read_parquet = (\<lambda>name w. (Inr 0, w)) \<rparr>"

text \<open>
  Three input files: a batch of an unknown source with an empty payload; a FlixPatrol
  title batch; and a platform-changes batch whose \<open>shows\<close> is \<open>null\<close>.
\<close>

definition unknown_file :: fresh_file where
  "unknown_file =
     \<lparr> f_name = ''fresh_data_20260115.json'', f_mtime = 3,
       f_json = Some (JList [JDict [(''source'', JStr ''unknown_api''), (''type'', JStr ''x''),
                                     (''data'', JDict [])]]) \<rparr>"

definition flixpatrol_file :: fresh_file where
  "flixpatrol_file =
     \<lparr> f_name = ''flixpatrol_20260115.json'', f_mtime = 2,
       f_json = Some (JList [JDict [(''source'', JStr ''flixpatrol''), (''type'', JStr ''titles''),
          (''data'', JDict [(''data'', JList [JDict [(''id'', JInt 42), (''imdbId'', JInt 76759),
              (''premiere'', JStr ''2026-01-01'')]])])]]) \<rparr>"

definition null_shows_file :: fresh_file where
  "null_shows_file =
     \<lparr> f_name = ''streaming_availability_20260115.json'', f_mtime = 1,
       f_json = Some (JList [JDict [(''source'', JStr ''streaming_availability''),
          (''type'', JStr ''new_shows''),
          (''data'', JDict [(''changes'', JList [JDict [(''showId'', JStr ''933'')]]),
                            (''shows'', JNull)])]]) \<rparr>"

text \<open>The FreshIn directory holding the three files.\<close>

definition demo_dir :: "fresh_file list" where
  "demo_dir = [null_shows_file, unknown_file, flixpatrol_file]"

text \<open>
  A mapper whose alias table renames a column of the table, and a float rendering that
  is Python's for a float of integral value below \<open>10^16\<close> (\<open>76759.0\<close>).
\<close>

definition renaming_mapper :: column_mapper where
  "renaming_mapper =
     \<lparr> translation_map = [''premiere_date'' \<mapsto> ''release_date''],
       canonical_columns = {} \<rparr>"

definition integral_float_repr :: "real \<Rightarrow> string" where
  "integral_float_repr r = py_str_int \<lfloor>r\<rfloor> @ ''.0''"

text \<open>
  A file of two batches: FlixPatrol titles, which are merged, and then platform changes
  whose \<open>shows\<close> is \<open>null\<close>.
\<close>

definition half_failing_file :: fresh_file where
  "half_failing_file =
     \<lparr> f_name = ''fresh_data_20260116.json'', f_mtime = 4,
       f_json = Some (JList
         [JDict [(''source'', JStr ''flixpatrol''), (''type'', JStr ''titles''),
            (''data'', JDict [(''data'', JList [JDict [(''id'', JInt 42),
                (''imdbId'', JInt 76759)]])])],
          JDict [(''source'', JStr ''streaming_availability''), (''type'', JStr ''new_shows''),
            (''data'', JDict [(''changes'', JList [JDict [(''showId'', JStr ''933'')]]),
                              (''shows'', JNull)])]]) \<rparr>"

section \<open>Evaluation rules for concrete inputs\<close>

lemmas eval_defs = is_empty_def EMPTY_VALUES_ingest_def EMPTY_VALUES_merger_def pd_isna_def
  py_strip_def py_isspace_def to_canonical_def py_lower_def py_lower_char_def Let_def
  char_of_eq_iff load_bfd_def load_database_def demo_table_def demo_mapper_def
  at_get_def at_set_def py_ne_def

section \<open>MERGE fills gaps only\<close>

lemma at_get_present:
  "idx \<in> set (df_index df) \<Longrightarrow> column \<in> set (df_columns df)
   \<Longrightarrow> at_get df idx column = Inr (df_cells df idx column)"
  by (simp add: at_get_def)

lemma at_get_at_set:
  "at_get (at_set df idx column v) idx column = Inr v"
  by (simp add: at_get_def at_set_def)

lemma update_value_merge:
  assumes "idx \<in> set (df_index (bfd s))" and "column \<in> bfd_columns s"
    and "bfd_columns s = set (df_columns (bfd s))"
    and "\<not> is_empty EMPTY_VALUES_ingest val"
  shows "update_value s idx column val ''MERGE'' =
     (if is_empty EMPTY_VALUES_ingest (df_cells (bfd s) idx column)
      then (Inr True, s\<lparr>bfd := at_set (bfd s) idx column val\<rparr>) else (Inr False, s))"
proof -
  have "at_get (bfd s) idx column = Inr (df_cells (bfd s) idx column)"
    using assms by (simp add: at_get_def)
  then show ?thesis
    using assms by (simp add: update_value_def)
qed

lemma merger_update_value_merge:
  assumes "idx \<in> set (df_index (m_bfd t))"
    and "to_canonical (mapper t) col \<in> m_bfd_columns t"
    and "m_bfd_columns t = set (df_columns (m_bfd t))"
    and "\<not> is_empty EMPTY_VALUES_merger val"
  shows "merger_update_value t idx col val ''MERGE'' =
     (if is_empty EMPTY_VALUES_merger (df_cells (m_bfd t) idx (to_canonical (mapper t) col))
      then (Inr True, t\<lparr>m_bfd := at_set (m_bfd t) idx (to_canonical (mapper t) col) val\<rparr>)
      else (Inr False, t))"
proof -
  have "at_get (m_bfd t) idx (to_canonical (mapper t) col)
      = Inr (df_cells (m_bfd t) idx (to_canonical (mapper t) col))"
    using assms by (simp add: at_get_def)
  then show ?thesis
    using assms by (simp add: merger_update_value_def Let_def)
qed

lemma merge_fills_gaps_addressed:
  "(idx \<in> set (df_index (bfd s)) \<and> column \<in> bfd_columns s
      \<and> bfd_columns s = set (df_columns (bfd s)) \<and> \<not> is_empty EMPTY_VALUES_ingest val
    \<longrightarrow> (is_empty EMPTY_VALUES_ingest (df_cells (bfd s) idx column)
           \<longrightarrow> fst (update_value s idx column val ''MERGE'') = Inr True
             \<and> at_get (bfd (snd (update_value s idx column val ''MERGE''))) idx column = Inr val)
      \<and> (\<not> is_empty EMPTY_VALUES_ingest (df_cells (bfd s) idx column)
           \<longrightarrow> update_value s idx column val ''MERGE'' = (Inr False, s)))
   \<and> (idx \<in> set (df_index (m_bfd t)) \<and> to_canonical (mapper t) col \<in> m_bfd_columns t
      \<and> m_bfd_columns t = set (df_columns (m_bfd t)) \<and> \<not> is_empty EMPTY_VALUES_merger val
    \<longrightarrow> (is_empty EMPTY_VALUES_merger (df_cells (m_bfd t) idx (to_canonical (mapper t) col))
           \<longrightarrow> fst (merger_update_value t idx col val ''MERGE'') = Inr True
             \<and> at_get (m_bfd (snd (merger_update_value t idx col val ''MERGE''))) idx
                 (to_canonical (mapper t) col) = Inr val)
      \<and> (\<not> is_empty EMPTY_VALUES_merger (df_cells (m_bfd t) idx (to_canonical (mapper t) col))
           \<longrightarrow> merger_update_value t idx col val ''MERGE'' = (Inr False, t)))"
proof (intro conjI impI)
  assume a: "idx \<in> set (df_index (bfd s)) \<and> column \<in> bfd_columns s
      \<and> bfd_columns s = set (df_columns (bfd s)) \<and> \<not> is_empty EMPTY_VALUES_ingest val"
  then have u: "update_value s idx column val ''MERGE'' =
     (if is_empty EMPTY_VALUES_ingest (df_cells (bfd s) idx column)
      then (Inr True, s\<lparr>bfd := at_set (bfd s) idx column val\<rparr>) else (Inr False, s))"
    by (intro update_value_merge) auto
  {
    assume e: "is_empty EMPTY_VALUES_ingest (df_cells (bfd s) idx column)"
    show "fst (update_value s idx column val ''MERGE'') = Inr True"
      using e u by simp
    show "at_get (bfd (snd (update_value s idx column val ''MERGE''))) idx column = Inr val"
      using e u by (simp add: at_get_at_set)
  }
  {
    assume "\<not> is_empty EMPTY_VALUES_ingest (df_cells (bfd s) idx column)"
    then show "update_value s idx column val ''MERGE'' = (Inr False, s)"
      using u by simp
  }
next
  assume a: "idx \<in> set (df_index (m_bfd t)) \<and> to_canonical (mapper t) col \<in> m_bfd_columns t
      \<and> m_bfd_columns t = set (df_columns (m_bfd t)) \<and> \<not> is_empty EMPTY_VALUES_merger val"
  then have u: "merger_update_value t idx col val ''MERGE'' =
     (if is_empty EMPTY_VALUES_merger (df_cells (m_bfd t) idx (to_canonical (mapper t) col))
      then (Inr True, t\<lparr>m_bfd := at_set (m_bfd t) idx (to_canonical (mapper t) col) val\<rparr>)
      else (Inr False, t))"
    by (intro merger_update_value_merge) auto
  {
    assume e: "is_empty EMPTY_VALUES_merger (df_cells (m_bfd t) idx (to_canonical (mapper t) col))"
    show "fst (merger_update_value t idx col val ''MERGE'') = Inr True"
      using e u by simp
    show "at_get (m_bfd (snd (merger_update_value t idx col val ''MERGE''))) idx
                 (to_canonical (mapper t) col) = Inr val"
      using e u by (simp add: at_get_at_set)
  }
  {
    assume "\<not> is_empty EMPTY_VALUES_merger (df_cells (m_bfd t) idx (to_canonical (mapper t) col))"
    then show "merger_update_value t idx col val ''MERGE'' = (Inr False, t)"
      using u by simp
  }
qed

lemma update_value_merge_cases:
  "snd (update_value s idx column val ''MERGE'') = s
   \<or> (idx \<in> set (df_index (bfd s)) \<and> column \<in> set (df_columns (bfd s))
      \<and> is_empty EMPTY_VALUES_ingest (df_cells (bfd s) idx column)
      \<and> snd (update_value s idx column val ''MERGE'') = s\<lparr>bfd := at_set (bfd s) idx column val\<rparr>)"
  by (auto simp: update_value_def at_get_def split: sum.splits if_splits)

lemma merger_update_value_merge_cases:
  "snd (merger_update_value t idx col val ''MERGE'') = t
   \<or> (idx \<in> set (df_index (m_bfd t)) \<and> to_canonical (mapper t) col \<in> set (df_columns (m_bfd t))
      \<and> is_empty EMPTY_VALUES_merger (df_cells (m_bfd t) idx (to_canonical (mapper t) col))
      \<and> snd (merger_update_value t idx col val ''MERGE'')
          = t\<lparr>m_bfd := at_set (m_bfd t) idx (to_canonical (mapper t) col) val\<rparr>)"
  by (auto simp: merger_update_value_def at_get_def Let_def split: sum.splits if_splits)

lemma merge_keeps_filled:
  assumes "at_get (bfd s) i c = Inr v" and "\<not> is_empty EMPTY_VALUES_ingest v"
  shows "at_get (bfd (snd (update_value s idx column val ''MERGE''))) i c = Inr v"
  using update_value_merge_cases [of s idx column val] assms
  by (auto simp: at_get_def at_set_def split: if_splits)

lemma merger_merge_keeps_filled:
  assumes "at_get (m_bfd t) i c = Inr v" and "\<not> is_empty EMPTY_VALUES_merger v"
  shows "at_get (m_bfd (snd (merger_update_value t idx col val ''MERGE''))) i c = Inr v"
  using merger_update_value_merge_cases [of t idx col val] assms
  by (auto simp: at_get_def at_set_def split: if_splits)

lemma merger_update_value_rejected:
  assumes "to_canonical (mapper t) col \<notin> m_bfd_columns t"
  shows "merger_update_value t idx col val mode = (Inr False, t)"
  using assms by (simp add: merger_update_value_def Let_def)

text \<open>
  C1, as the code has it. For a row label of the table and a non-empty new value, a MERGE
  update writes the value and returns True when the addressed cell is empty, and changes
  nothing and returns False when it is not empty: in the ingestion engine for every
  column of the captured column set (the table still having exactly the columns captured
  at load), and in the metadata merger for every column whose canonical name, as
  \<open>to_canonical\<close> resolves it, is in the captured set, the addressed cell being that of
  the canonical name. In both engines, whatever the row, the column and the value, a cell
  that holds a non-empty value before a MERGE update holds the same value after it. A
  column that the mapper resolves to a name outside the captured set is rejected by the
  merger: the call returns False and changes nothing.
\<close>

theorem merge_fills_only_gaps:
  "(idx \<in> set (df_index (bfd s)) \<and> column \<in> bfd_columns s
      \<and> bfd_columns s = set (df_columns (bfd s)) \<and> \<not> is_empty EMPTY_VALUES_ingest val
    \<longrightarrow> (is_empty EMPTY_VALUES_ingest (df_cells (bfd s) idx column)
           \<longrightarrow> fst (update_value s idx column val ''MERGE'') = Inr True
             \<and> at_get (bfd (snd (update_value s idx column val ''MERGE''))) idx column = Inr val)
      \<and> (\<not> is_empty EMPTY_VALUES_ingest (df_cells (bfd s) idx column)
           \<longrightarrow> update_value s idx column val ''MERGE'' = (Inr False, s)))
   \<and> (idx \<in> set (df_index (m_bfd t)) \<and> to_canonical (mapper t) col \<in> m_bfd_columns t
      \<and> m_bfd_columns t = set (df_columns (m_bfd t)) \<and> \<not> is_empty EMPTY_VALUES_merger val
    \<longrightarrow> (is_empty EMPTY_VALUES_merger (df_cells (m_bfd t) idx (to_canonical (mapper t) col))
           \<longrightarrow> fst (merger_update_value t idx col val ''MERGE'') = Inr True
             \<and> at_get (m_bfd (snd (merger_update_value t idx col val ''MERGE''))) idx
                 (to_canonical (mapper t) col) = Inr val)
      \<and> (\<not> is_empty EMPTY_VALUES_merger (df_cells (m_bfd t) idx (to_canonical (mapper t) col))
           \<longrightarrow> merger_update_value t idx col val ''MERGE'' = (Inr False, t)))
   \<and> (\<forall>i c v. at_get (bfd s) i c = Inr v \<and> \<not> is_empty EMPTY_VALUES_ingest v
        \<longrightarrow> at_get (bfd (snd (update_value s idx column val ''MERGE''))) i c = Inr v)
   \<and> (\<forall>i c v. at_get (m_bfd t) i c = Inr v \<and> \<not> is_empty EMPTY_VALUES_merger v
        \<longrightarrow> at_get (m_bfd (snd (merger_update_value t idx col val ''MERGE''))) i c = Inr v)
   \<and> (to_canonical (mapper t) col \<notin> m_bfd_columns t
        \<longrightarrow> merger_update_value t idx col val ''MERGE'' = (Inr False, t))"
  using merge_fills_gaps_addressed [of idx s column val t col]
    merge_keeps_filled [of s _ _ _ idx column val]
    merger_merge_keeps_filled [of t _ _ _ idx col val]
    merger_update_value_rejected [of t col idx val "''MERGE''"]
  by blast

text \<open>
  C1 as stated fails for the metadata merger: with an alias table that renames
  \<open>premiere_date\<close>, a call on that column of the captured set, on a row whose cell is
  empty and with a non-empty value, returns False and writes nothing.
\<close>

theorem merge_fills_only_gaps_counterexample:
  "0 \<in> set (df_index (m_bfd (load_database renaming_mapper demo_table)))
   \<and> ''premiere_date'' \<in> m_bfd_columns (load_database renaming_mapper demo_table)
   \<and> is_empty EMPTY_VALUES_merger
        (df_cells (m_bfd (load_database renaming_mapper demo_table)) 0 ''premiere_date'')
   \<and> \<not> is_empty EMPTY_VALUES_merger (PStr ''2026-01-01'')
   \<and> merger_update_value (load_database renaming_mapper demo_table) 0 ''premiere_date''
        (PStr ''2026-01-01'') ''MERGE'' = (Inr False, load_database renaming_mapper demo_table)"
  by (simp add: eval_defs renaming_mapper_def merger_update_value_def)

theorem merge_fills_only_gaps_witness:
  "fst (update_value (load_bfd demo_table) 0 ''premiere_date'' (PStr ''2026-01-01'') ''MERGE'') = Inr True
   \<and> at_get (bfd (snd (update_value (load_bfd demo_table) 0 ''premiere_date'' (PStr ''2026-01-01'')
          ''MERGE''))) 0 ''premiere_date'' = Inr (PStr ''2026-01-01'')
   \<and> merger_update_value (load_database demo_mapper demo_table) 1 ''Premiere '' (PStr ''2026-01-01'')
        ''MERGE'' = (Inr False, load_database demo_mapper demo_table)"
  using merge_fills_only_gaps [of 0 "load_bfd demo_table" "''premiere_date''" "PStr ''2026-01-01''"
      "load_database demo_mapper demo_table" "''premiere_date''"]
    merge_fills_only_gaps [of 1 "load_bfd demo_table" "''premiere_date''" "PStr ''2026-01-01''"
      "load_database demo_mapper demo_table" "''Premiere ''"]
  by (simp add: load_bfd_def load_database_def eval_defs)

section \<open>OVERWRITE replaces a different value\<close>

lemma py_eq_empty_nonempty:
  assumes "is_empty EV current" and "\<not> is_empty EV val"
  shows "pd_isna current \<or> \<not> py_eq current val"
proof (cases current)
  case (PStr s)
  with assms show ?thesis
    by (cases val) (auto simp: is_empty_def pd_isna_def)
qed (use assms in \<open>auto simp: is_empty_def pd_isna_def\<close>)

lemma py_eq_not_isna:
  assumes "py_eq current val" and "\<not> is_empty EV val"
  shows "\<not> pd_isna current"
  using assms by (cases current; cases val) (auto simp: is_empty_def pd_isna_def)

lemma update_value_overwrite:
  assumes "idx \<in> set (df_index (bfd s))" and "column \<in> bfd_columns s"
    and "bfd_columns s = set (df_columns (bfd s))"
    and "\<not> is_empty EMPTY_VALUES_ingest val"
  shows "update_value s idx column val ''OVERWRITE'' =
     (if py_eq (df_cells (bfd s) idx column) val then (Inr False, s)
      else (Inr True, s\<lparr>bfd := at_set (bfd s) idx column val\<rparr>))"
proof -
  have "at_get (bfd s) idx column = Inr (df_cells (bfd s) idx column)"
    using assms by (simp add: at_get_def)
  then show ?thesis
    using assms py_eq_not_isna [of "df_cells (bfd s) idx column" val EMPTY_VALUES_ingest]
    by (auto simp add: update_value_def py_ne_def)
qed

lemma merger_update_value_overwrite:
  assumes "idx \<in> set (df_index (m_bfd t))"
    and "to_canonical (mapper t) col \<in> m_bfd_columns t"
    and "m_bfd_columns t = set (df_columns (m_bfd t))"
    and "\<not> is_empty EMPTY_VALUES_merger val"
  shows "merger_update_value t idx col val ''OVERWRITE'' =
     (if py_eq (df_cells (m_bfd t) idx (to_canonical (mapper t) col)) val then (Inr False, t)
      else (Inr True, t\<lparr>m_bfd := at_set (m_bfd t) idx (to_canonical (mapper t) col) val\<rparr>))"
proof -
  have "at_get (m_bfd t) idx (to_canonical (mapper t) col)
      = Inr (df_cells (m_bfd t) idx (to_canonical (mapper t) col))"
    using assms by (simp add: at_get_def)
  then show ?thesis
    using assms
      py_eq_not_isna [of "df_cells (m_bfd t) idx (to_canonical (mapper t) col)" val EMPTY_VALUES_merger]
    by (auto simp add: merger_update_value_def py_ne_def Let_def)
qed

text \<open>
  C2, as the code has it. For a row label of the table and a non-empty new value, an
  OVERWRITE update writes the value and returns True when the addressed cell is empty or
  differs from the new value under Python's \<open>==\<close> (a NaN or \<open>None\<close> cell always counts
  as different), and changes nothing and returns False when the addressed cell equals the
  new value: in the ingestion engine for every column of the captured column set (the
  table still having exactly the columns captured at load), and in the metadata merger
  for every column whose canonical name, as \<open>to_canonical\<close> resolves it, is in the
  captured set, the addressed cell being that of the canonical name. A column that the
  mapper resolves to a name outside the captured set is rejected by the merger: the call
  returns False and changes nothing.
\<close>

theorem overwrite_replaces_when_different:
  "(idx \<in> set (df_index (bfd s)) \<and> column \<in> bfd_columns s
      \<and> bfd_columns s = set (df_columns (bfd s)) \<and> \<not> is_empty EMPTY_VALUES_ingest val
    \<longrightarrow> (is_empty EMPTY_VALUES_ingest (df_cells (bfd s) idx column)
             \<or> \<not> py_eq (df_cells (bfd s) idx column) val
           \<longrightarrow> fst (update_value s idx column val ''OVERWRITE'') = Inr True
             \<and> at_get (bfd (snd (update_value s idx column val ''OVERWRITE''))) idx column
                 = Inr val)
      \<and> (py_eq (df_cells (bfd s) idx column) val
           \<longrightarrow> update_value s idx column val ''OVERWRITE'' = (Inr False, s)))
   \<and> (idx \<in> set (df_index (m_bfd t)) \<and> to_canonical (mapper t) col \<in> m_bfd_columns t
      \<and> m_bfd_columns t = set (df_columns (m_bfd t)) \<and> \<not> is_empty EMPTY_VALUES_merger val
    \<longrightarrow> (is_empty EMPTY_VALUES_merger (df_cells (m_bfd t) idx (to_canonical (mapper t) col))
             \<or> \<not> py_eq (df_cells (m_bfd t) idx (to_canonical (mapper t) col)) val
           \<longrightarrow> fst (merger_update_value t idx col val ''OVERWRITE'') = Inr True
             \<and> at_get (m_bfd (snd (merger_update_value t idx col val ''OVERWRITE''))) idx
                 (to_canonical (mapper t) col) = Inr val)
      \<and> (py_eq (df_cells (m_bfd t) idx (to_canonical (mapper t) col)) val
           \<longrightarrow> merger_update_value t idx col val ''OVERWRITE'' = (Inr False, t)))
   \<and> (to_canonical (mapper t) col \<notin> m_bfd_columns t
        \<longrightarrow> merger_update_value t idx col val ''OVERWRITE'' = (Inr False, t))"
proof (intro conjI impI)
  assume a: "idx \<in> set (df_index (bfd s)) \<and> column \<in> bfd_columns s
      \<and> bfd_columns s = set (df_columns (bfd s)) \<and> \<not> is_empty EMPTY_VALUES_ingest val"
  then have u: "update_value s idx column val ''OVERWRITE'' =
     (if py_eq (df_cells (bfd s) idx column) val then (Inr False, s)
      else (Inr True, s\<lparr>bfd := at_set (bfd s) idx column val\<rparr>))"
    by (intro update_value_overwrite) auto
  {
    assume "is_empty EMPTY_VALUES_ingest (df_cells (bfd s) idx column)
             \<or> \<not> py_eq (df_cells (bfd s) idx column) val"
    then have ne: "\<not> py_eq (df_cells (bfd s) idx column) val"
      using a py_eq_empty_nonempty [of EMPTY_VALUES_ingest "df_cells (bfd s) idx column" val]
        py_eq_not_isna [of "df_cells (bfd s) idx column" val EMPTY_VALUES_ingest]
      by blast
    show "fst (update_value s idx column val ''OVERWRITE'') = Inr True"
      using ne u by simp
    show "at_get (bfd (snd (update_value s idx column val ''OVERWRITE''))) idx column = Inr val"
      using ne u by (simp add: at_get_at_set)
  }
  {
    assume "py_eq (df_cells (bfd s) idx column) val"
    then show "update_value s idx column val ''OVERWRITE'' = (Inr False, s)"
      using u by simp
  }
next
  let ?c = "to_canonical (mapper t) col"
  assume a: "idx \<in> set (df_index (m_bfd t)) \<and> ?c \<in> m_bfd_columns t
      \<and> m_bfd_columns t = set (df_columns (m_bfd t)) \<and> \<not> is_empty EMPTY_VALUES_merger val"
  then have u: "merger_update_value t idx col val ''OVERWRITE'' =
     (if py_eq (df_cells (m_bfd t) idx ?c) val then (Inr False, t)
      else (Inr True, t\<lparr>m_bfd := at_set (m_bfd t) idx ?c val\<rparr>))"
    by (intro merger_update_value_overwrite) auto
  {
    assume "is_empty EMPTY_VALUES_merger (df_cells (m_bfd t) idx ?c)
             \<or> \<not> py_eq (df_cells (m_bfd t) idx ?c) val"
    then have ne: "\<not> py_eq (df_cells (m_bfd t) idx ?c) val"
      using a py_eq_empty_nonempty [of EMPTY_VALUES_merger "df_cells (m_bfd t) idx ?c" val]
        py_eq_not_isna [of "df_cells (m_bfd t) idx ?c" val EMPTY_VALUES_merger]
      by blast
    show "fst (merger_update_value t idx col val ''OVERWRITE'') = Inr True"
      using ne u by simp
    show "at_get (m_bfd (snd (merger_update_value t idx col val ''OVERWRITE''))) idx ?c = Inr val"
      using ne u by (simp add: at_get_at_set)
  }
  {
    assume "py_eq (df_cells (m_bfd t) idx ?c) val"
    then show "merger_update_value t idx col val ''OVERWRITE'' = (Inr False, t)"
      using u by simp
  }
next
  assume "to_canonical (mapper t) col \<notin> m_bfd_columns t"
  then show "merger_update_value t idx col val ''OVERWRITE'' = (Inr False, t)"
    by (rule merger_update_value_rejected)
qed

text \<open>
  C2 as stated fails for the metadata merger: with an alias table that renames
  \<open>premiere_date\<close>, a call on that column of the captured set, whose cell differs from
  the non-empty new value, returns False and writes nothing.
\<close>

theorem overwrite_replaces_when_different_counterexample:
  "1 \<in> set (df_index (m_bfd (load_database renaming_mapper demo_table)))
   \<and> ''premiere_date'' \<in> m_bfd_columns (load_database renaming_mapper demo_table)
   \<and> df_cells (m_bfd (load_database renaming_mapper demo_table)) 1 ''premiere_date'' = PStr ''Y''
   \<and> \<not> py_eq (PStr ''Y'') (PStr ''X'')
   \<and> \<not> is_empty EMPTY_VALUES_merger (PStr ''X'')
   \<and> merger_update_value (load_database renaming_mapper demo_table) 1 ''premiere_date''
        (PStr ''X'') ''OVERWRITE'' = (Inr False, load_database renaming_mapper demo_table)"
  by (simp add: eval_defs renaming_mapper_def merger_update_value_def)

theorem overwrite_replaces_when_different_witness:
  "fst (update_value (load_bfd demo_table) 1 ''premiere_date'' (PStr ''X'') ''OVERWRITE'') = Inr True
   \<and> at_get (bfd (snd (update_value (load_bfd demo_table) 1 ''premiere_date'' (PStr ''X'')
          ''OVERWRITE''))) 1 ''premiere_date'' = Inr (PStr ''X'')
   \<and> merger_update_value (load_database demo_mapper demo_table) 1 ''Premiere '' (PStr ''Y'')
        ''OVERWRITE'' = (Inr False, load_database demo_mapper demo_table)"
  using overwrite_replaces_when_different [of 1 "load_bfd demo_table" "''premiere_date''" "PStr ''X''"
      "load_database demo_mapper demo_table" "''premiere_date''"]
    overwrite_replaces_when_different [of 1 "load_bfd demo_table" "''premiere_date''" "PStr ''Y''"
      "load_database demo_mapper demo_table" "''Premiere ''"]
  by (simp add: eval_defs)

section \<open>Rejected calls change nothing\<close>

lemma at_set_frame:
  assumes "idx \<in> set (df_index df)" and "column \<in> set (df_columns df)"
  shows "df_index (at_set df idx column v) = df_index df"
    and "df_columns (at_set df idx column v) = df_columns df"
    and "i \<noteq> idx \<or> c \<noteq> column \<Longrightarrow> at_get (at_set df idx column v) i c = at_get df i c"
  using assms by (auto simp: at_set_def at_get_def)

lemma update_value_cases:
  "snd (update_value s idx column val mode) = s
   \<or> (idx \<in> set (df_index (bfd s)) \<and> column \<in> set (df_columns (bfd s))
      \<and> snd (update_value s idx column val mode) = s\<lparr>bfd := at_set (bfd s) idx column val\<rparr>)"
  by (auto simp: update_value_def at_get_def py_ne_def split: sum.splits if_splits)

lemma merger_update_value_cases:
  "snd (merger_update_value t idx col val mode) = t
   \<or> (idx \<in> set (df_index (m_bfd t)) \<and> to_canonical (mapper t) col \<in> set (df_columns (m_bfd t))
      \<and> snd (merger_update_value t idx col val mode)
          = t\<lparr>m_bfd := at_set (m_bfd t) idx (to_canonical (mapper t) col) val\<rparr>)"
  by (auto simp: merger_update_value_def at_get_def py_ne_def Let_def split: sum.splits if_splits)

text \<open>
  C4, as the code has it. A call whose new value is empty, or whose column is not in the
  captured column set (for the metadata merger: whose canonical name, as \<open>to_canonical\<close>
  resolves the column, is not in the captured set), returns False, raises nothing and
  leaves the engine, and so the table and its columns, exactly as it was, whatever the
  row label and the mode. No call, whatever its arguments and its result, changes the
  columns of the table: a missing column is never added.
\<close>

theorem rejected_update_is_noop:
  "(column \<notin> bfd_columns s \<or> is_empty EMPTY_VALUES_ingest val
      \<longrightarrow> update_value s idx column val mode = (Inr False, s))
   \<and> (to_canonical (mapper t) col \<notin> m_bfd_columns t \<or> is_empty EMPTY_VALUES_merger val
      \<longrightarrow> merger_update_value t idx col val mode = (Inr False, t))
   \<and> df_columns (bfd (snd (update_value s idx column val mode))) = df_columns (bfd s)
   \<and> df_columns (m_bfd (snd (merger_update_value t idx col val mode))) = df_columns (m_bfd t)"
proof -
  have "df_columns (bfd (snd (update_value s idx column val mode))) = df_columns (bfd s)"
    using update_value_cases [of s idx column val mode] by (auto simp: at_set_frame)
  moreover have "df_columns (m_bfd (snd (merger_update_value t idx col val mode)))
      = df_columns (m_bfd t)"
    using merger_update_value_cases [of t idx col val mode] by (auto simp: at_set_frame)
  ultimately show ?thesis
    by (simp add: update_value_def merger_update_value_def Let_def)
qed

text \<open>
  C4 as stated fails for the metadata merger: \<open>premiere\<close> is not a column of the
  captured set, yet the call resolves it to \<open>premiere_date\<close>, returns True and writes
  that cell.
\<close>

theorem rejected_update_is_noop_counterexample:
  "''premiere'' \<notin> m_bfd_columns (load_database demo_mapper demo_table)
   \<and> at_get (m_bfd (load_database demo_mapper demo_table)) 0 ''premiere_date'' = Inr PNaN
   \<and> fst (merger_update_value (load_database demo_mapper demo_table) 0 ''premiere'' (PStr ''X'')
        ''MERGE'') = Inr True
   \<and> at_get (m_bfd (snd (merger_update_value (load_database demo_mapper demo_table) 0 ''premiere''
        (PStr ''X'') ''MERGE''))) 0 ''premiere_date'' = Inr (PStr ''X'')"
  by (simp add: eval_defs merger_update_value_def)

theorem rejected_update_is_noop_witness:
  "update_value (load_bfd demo_table) 0 ''new_column'' (PStr ''X'') ''OVERWRITE''
     = (Inr False, load_bfd demo_table)
   \<and> merger_update_value (load_database demo_mapper demo_table) 0 ''zzz'' (PStr ''X'')
       ''OVERWRITE'' = (Inr False, load_database demo_mapper demo_table)
   \<and> merger_update_value (load_database demo_mapper demo_table) 0 ''premiere'' (PStr '' null '')
       ''MERGE'' = (Inr False, load_database demo_mapper demo_table)
   \<and> df_columns (m_bfd (snd (merger_update_value (load_database demo_mapper demo_table) 0
       ''premiere'' (PStr ''X'') ''MERGE''))) = [''imdb_id'', ''premiere_date'']"
proof -
  have a: "''new_column'' \<notin> bfd_columns (load_bfd demo_table)"
    "to_canonical (mapper (load_database demo_mapper demo_table)) ''zzz''
       \<notin> m_bfd_columns (load_database demo_mapper demo_table)"
    "is_empty EMPTY_VALUES_merger (PStr '' null '')"
    "df_columns (m_bfd (load_database demo_mapper demo_table)) = [''imdb_id'', ''premiere_date'']"
    by (simp_all add: eval_defs)
  show ?thesis
    using rejected_update_is_noop [of "''new_column''" "load_bfd demo_table" "PStr ''X''" 0
        "''OVERWRITE''" "load_database demo_mapper demo_table" "''zzz''"]
      rejected_update_is_noop [of "''new_column''" "load_bfd demo_table" "PStr '' null ''" 0
        "''MERGE''" "load_database demo_mapper demo_table" "''premiere''"]
      rejected_update_is_noop [of "''new_column''" "load_bfd demo_table" "PStr ''X''" 0
        "''MERGE''" "load_database demo_mapper demo_table" "''premiere''"]
      a
    by simp
qed

section \<open>Frame of a cell update\<close>

text \<open>
  C10. Every call of the cell update, whatever its mode and its result, leaves the row
  labels (and so the row count), the column labels and the captured column set as they
  were, and every cell other than the addressed one (the given row label and the column,
  for the merger its canonical name) reads as before.
\<close>

theorem update_value_frame:
  "length (df_index (bfd (snd (update_value s idx column val mode)))) = length (df_index (bfd s))
   \<and> df_index (bfd (snd (update_value s idx column val mode))) = df_index (bfd s)
   \<and> df_columns (bfd (snd (update_value s idx column val mode))) = df_columns (bfd s)
   \<and> bfd_columns (snd (update_value s idx column val mode)) = bfd_columns s
   \<and> (\<forall>i c. i \<noteq> idx \<or> c \<noteq> column \<longrightarrow>
        at_get (bfd (snd (update_value s idx column val mode))) i c = at_get (bfd s) i c)
   \<and> length (df_index (m_bfd (snd (merger_update_value t idx col val mode))))
       = length (df_index (m_bfd t))
   \<and> df_index (m_bfd (snd (merger_update_value t idx col val mode))) = df_index (m_bfd t)
   \<and> df_columns (m_bfd (snd (merger_update_value t idx col val mode))) = df_columns (m_bfd t)
   \<and> m_bfd_columns (snd (merger_update_value t idx col val mode)) = m_bfd_columns t
   \<and> (\<forall>i c. i \<noteq> idx \<or> c \<noteq> to_canonical (mapper t) col \<longrightarrow>
        at_get (m_bfd (snd (merger_update_value t idx col val mode))) i c = at_get (m_bfd t) i c)"
proof -
  have A: "df_index (bfd (snd (update_value s idx column val mode))) = df_index (bfd s)"
    using update_value_cases [of s idx column val mode] by (auto simp: at_set_frame)
  have B: "df_columns (bfd (snd (update_value s idx column val mode))) = df_columns (bfd s)"
    using update_value_cases [of s idx column val mode] by (auto simp: at_set_frame)
  have C: "bfd_columns (snd (update_value s idx column val mode)) = bfd_columns s"
    using update_value_cases [of s idx column val mode] by auto
  have D: "\<forall>i c. i \<noteq> idx \<or> c \<noteq> column \<longrightarrow>
        at_get (bfd (snd (update_value s idx column val mode))) i c = at_get (bfd s) i c"
    using update_value_cases [of s idx column val mode] by (auto simp: at_set_frame)
  have A': "df_index (m_bfd (snd (merger_update_value t idx col val mode))) = df_index (m_bfd t)"
    using merger_update_value_cases [of t idx col val mode] by (auto simp: at_set_frame)
  have B': "df_columns (m_bfd (snd (merger_update_value t idx col val mode))) = df_columns (m_bfd t)"
    using merger_update_value_cases [of t idx col val mode] by (auto simp: at_set_frame)
  have C': "m_bfd_columns (snd (merger_update_value t idx col val mode)) = m_bfd_columns t"
    using merger_update_value_cases [of t idx col val mode] by auto
  have D': "\<forall>i c. i \<noteq> idx \<or> c \<noteq> to_canonical (mapper t) col \<longrightarrow>
        at_get (m_bfd (snd (merger_update_value t idx col val mode))) i c = at_get (m_bfd t) i c"
    using merger_update_value_cases [of t idx col val mode] by (auto simp: at_set_frame)
  show ?thesis
    using A B C D A' B' C' D' by simp
qed


theorem update_value_frame_witness:
  "df_columns (bfd (snd (update_value (load_bfd demo_table) 0 ''premiere_date'' (PStr ''X'') ''MERGE'')))
     = [''imdb_id'', ''premiere_date'']
   \<and> at_get (bfd (snd (update_value (load_bfd demo_table) 0 ''premiere_date'' (PStr ''X'') ''MERGE'')))
       1 ''premiere_date'' = Inr (PStr ''Y'')
   \<and> at_get (m_bfd (snd (merger_update_value (load_database demo_mapper demo_table) 0 ''Premiere''
       (PStr ''X'') ''MERGE''))) 0 ''imdb_id'' = Inr (PStr ''tt0076759'')"
proof -
  note f = update_value_frame [of "load_bfd demo_table" 0 "''premiere_date''" "PStr ''X''" "''MERGE''"
      "load_database demo_mapper demo_table" "''Premiere''"]
  have c: "to_canonical (mapper (load_database demo_mapper demo_table)) ''Premiere'' = ''premiere_date''"
    by (simp add: eval_defs)
  have "df_columns (bfd (snd (update_value (load_bfd demo_table) 0 ''premiere_date'' (PStr ''X'')
      ''MERGE''))) = df_columns (bfd (load_bfd demo_table))"
    using f by simp
  moreover have "at_get (bfd (snd (update_value (load_bfd demo_table) 0 ''premiere_date'' (PStr ''X'')
      ''MERGE''))) 1 ''premiere_date'' = at_get (bfd (load_bfd demo_table)) 1 ''premiere_date''"
    using f by simp
  moreover have "at_get (m_bfd (snd (merger_update_value (load_database demo_mapper demo_table) 0
      ''Premiere'' (PStr ''X'') ''MERGE''))) 0 ''imdb_id''
      = at_get (m_bfd (load_database demo_mapper demo_table)) 0 ''imdb_id''"
    using f c by simp
  ultimately show ?thesis
    by (simp add: eval_defs)
qed

section \<open>The column check of the save step\<close>

text \<open>
  C3, as the code has it. Whenever the table has a column that is not in the column set
  captured at load, the save step writes nothing and returns False (the merger also
  records the unauthorized columns in its error list). Whenever every column of the table
  is in the captured set, the table is written and the step returns True; in particular
  when the two column sets are identical. No other condition of the engine state blocks
  the save.
\<close>

theorem save_blocks_on_new_columns_only:
  "(\<not> set (df_columns (bfd s)) \<subseteq> bfd_columns s
      \<longrightarrow> fst (save s) = False \<and> bfd_output (snd (save s)) = bfd_output s
        \<and> report_written (snd (save s)) = report_written s)
   \<and> (set (df_columns (bfd s)) \<subseteq> bfd_columns s
      \<longrightarrow> fst (save s) = True \<and> bfd_output (snd (save s)) = Some (bfd s))
   \<and> (\<not> set (df_columns (m_bfd t)) \<subseteq> m_bfd_columns t
      \<longrightarrow> fst (save_database t) = False \<and> bfd_meta_file (snd (save_database t)) = bfd_meta_file t
        \<and> stats_errors (snd (save_database t))
            = stats_errors t @ [Unauthorized_columns (set (df_columns (m_bfd t)) - m_bfd_columns t)])
   \<and> (set (df_columns (m_bfd t)) \<subseteq> m_bfd_columns t
      \<longrightarrow> fst (save_database t) = True \<and> bfd_meta_file (snd (save_database t)) = Some (m_bfd t)
        \<and> stats_errors (snd (save_database t)) = stats_errors t)"
  by (auto simp: save_def save_database_def Let_def)

text \<open>
  C3 as stated fails: a table that lost a column has a column set different from the
  captured one, and is written all the same.
\<close>

theorem save_counterexample:
  "set (df_columns (bfd dropped_column_engine)) \<noteq> bfd_columns dropped_column_engine
   \<and> fst (save dropped_column_engine) = True
   \<and> bfd_output (snd (save dropped_column_engine)) = Some (bfd dropped_column_engine)
   \<and> set (df_columns (m_bfd dropped_column_merger)) \<noteq> m_bfd_columns dropped_column_merger
   \<and> fst (save_database dropped_column_merger) = True
   \<and> bfd_meta_file (snd (save_database dropped_column_merger)) = Some (m_bfd dropped_column_merger)"
  by (auto simp: save_def save_database_def Let_def dropped_column_engine_def dropped_column_merger_def
      load_bfd_def load_database_def demo_table_def)

theorem save_blocks_on_new_columns_only_witness:
  "fst (save added_column_engine) = False \<and> bfd_output (snd (save added_column_engine)) = None
   \<and> fst (save (load_bfd demo_table)) = True
   \<and> bfd_output (snd (save (load_bfd demo_table))) = Some demo_table
   \<and> fst (save_database dropped_column_merger) = True"
  using save_blocks_on_new_columns_only [of added_column_engine dropped_column_merger]
    save_blocks_on_new_columns_only [of "load_bfd demo_table" dropped_column_merger]
  by (auto simp: added_column_engine_def dropped_column_merger_def at_set_def
      load_bfd_def load_database_def demo_table_def)

section \<open>The empty-value predicate\<close>

lemma sentinels_stripped:
  "\<forall>s \<in> set EMPTY_VALUES_merger. py_strip s = s"
  by (simp add: EMPTY_VALUES_merger_def py_strip_def py_isspace_def)

lemma ingest_subset_merger: "set EMPTY_VALUES_ingest \<subseteq> set EMPTY_VALUES_merger"
  by (simp add: EMPTY_VALUES_ingest_def EMPTY_VALUES_merger_def)

text \<open>
  C6, as the code has it. With either module's sentinel set, \<open>is_empty\<close> is true for
  \<open>None\<close>, for NaN and for every sentinel string, false for the numbers 0 and 0.0, and
  on a string it is true exactly when the string with its surrounding whitespace stripped
  is a sentinel; so it is false for every string whose stripped form is not a sentinel.
\<close>

theorem is_empty_cases:
  "EV = EMPTY_VALUES_ingest \<or> EV = EMPTY_VALUES_merger \<Longrightarrow>
     is_empty EV PNone \<and> is_empty EV PNaN
     \<and> (\<forall>s \<in> set EV. is_empty EV (PStr s))
     \<and> \<not> is_empty EV (PInt 0) \<and> \<not> is_empty EV (PFloat 0)
     \<and> (\<forall>s. is_empty EV (PStr s) = (py_strip s \<in> set EV))"
proof -
  assume "EV = EMPTY_VALUES_ingest \<or> EV = EMPTY_VALUES_merger"
  then have sub: "set EV \<subseteq> set EMPTY_VALUES_merger"
    using ingest_subset_merger by auto
  have "\<forall>s \<in> set EV. is_empty EV (PStr s)"
    using sub sentinels_stripped by (auto simp: is_empty_def pd_isna_def)
  then show ?thesis
    by (simp add: is_empty_def pd_isna_def)
qed

text \<open>
  C6 as stated fails: a blank is a non-empty string outside the sentinel set, and
  \<open>is_empty\<close> is true of it.
\<close>

theorem is_empty_counterexample:
  "is_empty EMPTY_VALUES_ingest (PStr '' '') \<and> '' '' \<notin> set EMPTY_VALUES_ingest \<and> '' '' \<noteq> ''''
   \<and> is_empty EMPTY_VALUES_merger (PStr '' '') \<and> '' '' \<notin> set EMPTY_VALUES_merger"
  by (simp add: is_empty_def pd_isna_def py_strip_def py_isspace_def EMPTY_VALUES_ingest_def
      EMPTY_VALUES_merger_def)

theorem is_empty_cases_witness:
  "is_empty EMPTY_VALUES_merger PNone \<and> is_empty EMPTY_VALUES_merger PNaN
   \<and> is_empty EMPTY_VALUES_merger (PStr ''undefined'') \<and> is_empty EMPTY_VALUES_merger (PStr ''N/A'')
   \<and> \<not> is_empty EMPTY_VALUES_merger (PInt 0) \<and> \<not> is_empty EMPTY_VALUES_merger (PFloat 0)
   \<and> \<not> is_empty EMPTY_VALUES_merger (PStr ''Star Wars'')
   \<and> \<not> is_empty EMPTY_VALUES_ingest (PStr ''undefined'')"
proof -
  have m: "is_empty EMPTY_VALUES_merger PNone \<and> is_empty EMPTY_VALUES_merger PNaN
     \<and> (\<forall>s \<in> set EMPTY_VALUES_merger. is_empty EMPTY_VALUES_merger (PStr s))
     \<and> \<not> is_empty EMPTY_VALUES_merger (PInt 0) \<and> \<not> is_empty EMPTY_VALUES_merger (PFloat 0)
     \<and> (\<forall>s. is_empty EMPTY_VALUES_merger (PStr s) = (py_strip s \<in> set EMPTY_VALUES_merger))"
    using is_empty_cases [of EMPTY_VALUES_merger] by blast
  have i: "\<forall>s. is_empty EMPTY_VALUES_ingest (PStr s) = (py_strip s \<in> set EMPTY_VALUES_ingest)"
    using is_empty_cases [of EMPTY_VALUES_ingest] by blast
  have "''undefined'' \<in> set EMPTY_VALUES_merger" and "''N/A'' \<in> set EMPTY_VALUES_merger"
    by (simp_all add: EMPTY_VALUES_merger_def)
  then have "is_empty EMPTY_VALUES_merger (PStr ''undefined'')"
    and "is_empty EMPTY_VALUES_merger (PStr ''N/A'')"
    using m by blast+
  moreover have "py_strip ''Star Wars'' \<notin> set EMPTY_VALUES_merger"
    by (simp add: EMPTY_VALUES_merger_def py_strip_def py_isspace_def)
  then have "\<not> is_empty EMPTY_VALUES_merger (PStr ''Star Wars'')"
    using m by blast
  moreover have "py_strip ''undefined'' \<notin> set EMPTY_VALUES_ingest"
    by (simp add: EMPTY_VALUES_ingest_def py_strip_def py_isspace_def)
  then have "\<not> is_empty EMPTY_VALUES_ingest (PStr ''undefined'')"
    using i by blast
  ultimately show ?thesis
    using m by blast
qed


section \<open>Identifier normalisation\<close>

lemma digit_char_ascii: "d < 10 \<Longrightarrow> is_ascii_digit (digit_char d) \<and> digit_value (digit_char d) = d"
  by (simp add: is_ascii_digit_def digit_char_def digit_value_def)

lemma py_str_nat_digits: "py_str_nat n \<noteq> [] \<and> list_all is_ascii_digit (py_str_nat n)"
proof (induction n rule: py_str_nat.induct)
  case (1 n)
  show ?case
  proof (cases "n < 10")
    case True
    then show ?thesis
      by (subst py_str_nat.simps, subst (2) py_str_nat.simps) (simp add: digit_char_ascii)
  next
    case False
    then have "list_all is_ascii_digit (py_str_nat (n div 10))"
      using 1 by simp
    moreover have "is_ascii_digit (digit_char (n mod 10))"
      by (simp add: digit_char_ascii)
    ultimately show ?thesis
      using False by (subst py_str_nat.simps, subst (2) py_str_nat.simps) simp
  qed
qed

lemma strip_keeps_unpadded:
  assumes "s \<noteq> []" and "\<not> P (hd s)" and "\<not> P (last s)"
  shows "rev (dropWhile P (rev (dropWhile P s))) = s"
proof -
  have "dropWhile P s = s"
    using assms by (cases s) auto
  moreover have "dropWhile P (rev s) = rev s"
    using assms by (cases "rev s") (auto simp: last_rev [symmetric] hd_rev)
  ultimately show ?thesis by simp
qed

lemma digits_not_space:
  "is_ascii_digit c \<Longrightarrow> \<not> py_isspace c \<and> \<not> py_int_isspace c \<and> py_isdigit_char c"
  by (auto simp: is_ascii_digit_def py_isspace_def py_int_isspace_def py_isdigit_char_def Let_def)

lemma digit_string_facts:
  assumes "s \<noteq> []" and "list_all is_ascii_digit s"
  shows "py_strip s = s" and "py_isdigit s"
    and "rev (dropWhile py_int_isspace (rev (dropWhile py_int_isspace s))) = s"
proof -
  have h: "is_ascii_digit (hd s)" and l: "is_ascii_digit (last s)"
    using assms by (auto simp: list_all_iff)
  show "py_strip s = s"
    unfolding py_strip_def using assms h l digits_not_space
    by (intro strip_keeps_unpadded) auto
  show "rev (dropWhile py_int_isspace (rev (dropWhile py_int_isspace s))) = s"
    using assms h l digits_not_space by (intro strip_keeps_unpadded) auto
  show "py_isdigit s"
    using assms digits_not_space by (auto simp: py_isdigit_def list_all_iff)
qed

lemma sentinels_not_digits:
  "\<forall>x \<in> set EMPTY_VALUES_merger. x = [] \<or> \<not> list_all is_ascii_digit x"
  by (simp add: EMPTY_VALUES_merger_def is_ascii_digit_def)

lemma sentinels_not_tt:
  "\<forall>x \<in> set EMPTY_VALUES_merger. \<not> startswith x ''tt''"
  by (simp add: EMPTY_VALUES_merger_def startswith_def)

lemma sentinel_sets:
  "EV = EMPTY_VALUES_ingest \<or> EV = EMPTY_VALUES_merger \<Longrightarrow> set EV \<subseteq> set EMPTY_VALUES_merger"
  by (auto simp: EMPTY_VALUES_ingest_def EMPTY_VALUES_merger_def)

lemma digit_string_not_empty:
  assumes "EV = EMPTY_VALUES_ingest \<or> EV = EMPTY_VALUES_merger"
    and "s \<noteq> []" and "list_all is_ascii_digit s"
  shows "\<not> is_empty EV (PStr s)"
  using assms sentinel_sets [OF assms(1)] sentinels_not_digits digit_string_facts(1) [of s]
  by (auto simp: is_empty_def pd_isna_def)

lemma normalize_digit_string:
  assumes "EV = EMPTY_VALUES_ingest \<or> EV = EMPTY_VALUES_merger"
    and "s \<noteq> []" and "list_all is_ascii_digit s"
  shows "normalize_imdb_id EV fr (PStr s) = Some (''tt'' @ py_zfill 7 s)"
  using digit_string_not_empty [OF assms] digit_string_facts [OF assms(2,3)]
  by (simp add: normalize_imdb_id_def)

lemma normalize_nonneg_int:
  assumes "EV = EMPTY_VALUES_ingest \<or> EV = EMPTY_VALUES_merger" and "0 \<le> n"
  shows "normalize_imdb_id EV fr (PInt n) = Some (''tt'' @ py_zfill 7 (py_str_int n))"
proof -
  have s: "py_str_int n = py_str_nat (nat n)"
    using assms by (simp add: py_str_int_def)
  have "\<not> is_empty EV (PInt n)"
    by (simp add: is_empty_def pd_isna_def)
  then show ?thesis
    using digit_string_facts [of "py_str_nat (nat n)"] py_str_nat_digits [of "nat n"] s
    by (simp add: normalize_imdb_id_def)
qed

lemma strip_tt:
  assumes "startswith s ''tt''"
  shows "startswith (py_strip s) ''tt''"
proof -
  obtain r where s: "s = CHR ''t'' # CHR ''t'' # r"
    using assms by (cases s; cases "tl s") (auto simp: startswith_def)
  have nt: "\<not> py_isspace CHR ''t''"
    by (simp add: py_isspace_def)
  have "dropWhile py_isspace (rev s) = dropWhile py_isspace (rev r) @ ''tt''
      \<or> dropWhile py_isspace (rev s) = ''tt''"
    using nt by (simp add: s dropWhile_append)
  then show ?thesis
    using nt by (auto simp: py_strip_def s startswith_def)
qed

lemma normalize_tt:
  assumes "EV = EMPTY_VALUES_ingest \<or> EV = EMPTY_VALUES_merger" and "startswith s ''tt''"
  shows "normalize_imdb_id EV fr (PStr s) = Some (py_strip s)"
proof -
  have t: "startswith (py_strip s) ''tt''"
    using assms(2) by (rule strip_tt)
  then have "py_strip s \<notin> set EV"
    using sentinel_sets [OF assms(1)] sentinels_not_tt by auto
  then have ne: "\<not> is_empty EV (PStr s)"
    by (simp add: is_empty_def pd_isna_def)
  have "\<not> py_isdigit (py_strip s)"
    using t by (cases "py_strip s") (auto simp: py_isdigit_def startswith_def py_isdigit_char_def)
  then show ?thesis
    using ne t by (simp add: normalize_imdb_id_def)
qed

text \<open>Reading back the decimal digits of a number.\<close>

lemma parse_digits_all:
  "list_all is_ascii_digit ds \<Longrightarrow>
     parse_digits acc ds = Some (foldl (\<lambda>a c. 10 * a + digit_value c) acc ds)"
  by (induction acc ds rule: parse_digits.induct) auto

lemma parse_literal_all:
  assumes "s \<noteq> []" and "list_all is_ascii_digit s"
  shows "parse_literal s = Some (foldl (\<lambda>a c. 10 * a + digit_value c) 0 s)"
  using assms by (cases s) (auto simp: parse_literal_def parse_digits_all)

lemma foldl_py_str_nat:
  "foldl (\<lambda>a c. 10 * a + digit_value c) 0 (py_str_nat n) = n"
proof (induction n rule: py_str_nat.induct)
  case (1 n)
  show ?case
  proof (cases "n < 10")
    case True
    then show ?thesis
      by (subst py_str_nat.simps) (simp add: digit_char_ascii)
  next
    case False
    then show ?thesis
      using 1 by (subst py_str_nat.simps) (simp add: digit_char_ascii)
  qed
qed

lemma not_sign_digit: "is_ascii_digit c \<Longrightarrow> c \<noteq> CHR ''-'' \<and> c \<noteq> CHR ''+''"
  by (auto simp: is_ascii_digit_def)

lemma py_int_of_digit_string:
  assumes "s \<noteq> []" and "list_all is_ascii_digit s"
  shows "py_int_of_str s = Some (int (foldl (\<lambda>a c. 10 * a + digit_value c) 0 s))"
proof -
  obtain c cs where s: "s = c # cs" using assms by (cases s) auto
  then have "is_ascii_digit c" using assms by simp
  then have "c \<noteq> CHR ''-''" and "c \<noteq> CHR ''+''"
    using not_sign_digit by auto
  then show ?thesis
    using digit_string_facts(3) [OF assms] parse_literal_all [OF assms]
    by (simp add: py_int_of_str_def s)
qed

lemma convert_decimal_string:
  "convert_imdb_id (PStr (py_str_nat n)) = Inr (Some (''tt'' @ py_zfill 7 (py_str_nat n)))"
proof -
  have d: "py_str_nat n \<noteq> []" "list_all is_ascii_digit (py_str_nat n)"
    using py_str_nat_digits by auto
  then have "\<not> startswith (py_str_nat n) ''tt''"
    by (cases "py_str_nat n") (auto simp: startswith_def is_ascii_digit_def)
  then show ?thesis
    using py_int_of_digit_string [OF d] foldl_py_str_nat [of n]
    by (simp add: format_07d_def py_str_int_def)
qed

lemma sentinels_not_isdigit:
  "\<forall>x \<in> set EMPTY_VALUES_merger. \<not> py_isdigit x"
  by (simp add: EMPTY_VALUES_merger_def py_isdigit_def py_isdigit_char_def)

lemma normalize_isdigit:
  assumes "EV = EMPTY_VALUES_ingest \<or> EV = EMPTY_VALUES_merger"
    and "py_isdigit (py_strip s)"
  shows "normalize_imdb_id EV fr (PStr s) = Some (''tt'' @ py_zfill 7 (py_strip s))"
proof -
  have "py_strip s \<notin> set EV"
    using sentinel_sets [OF assms(1)] sentinels_not_isdigit assms(2) by auto
  then have "\<not> is_empty EV (PStr s)"
    by (simp add: is_empty_def pd_isna_def)
  then show ?thesis
    using assms(2) by (simp add: normalize_imdb_id_def)
qed

lemma normalize_tt_stripped:
  assumes "EV = EMPTY_VALUES_ingest \<or> EV = EMPTY_VALUES_merger"
    and "startswith (py_strip s) ''tt''"
  shows "normalize_imdb_id EV fr (PStr s) = Some (py_strip s)"
proof -
  have "py_strip s \<notin> set EV"
    using sentinel_sets [OF assms(1)] sentinels_not_tt assms(2) by auto
  then have ne: "\<not> is_empty EV (PStr s)"
    by (simp add: is_empty_def pd_isna_def)
  have "\<not> py_isdigit (py_strip s)"
    using assms(2)
    by (cases "py_strip s") (auto simp: py_isdigit_def startswith_def py_isdigit_char_def)
  then show ?thesis
    using ne assms(2) by (simp add: normalize_imdb_id_def)
qed

lemma normalize_negative_int:
  assumes "n < 0"
  shows "normalize_imdb_id EV fr (PInt n) = None"
proof -
  let ?d = "py_str_nat (nat (- n))"
  have s: "py_str_int n = CHR ''-'' # ?d"
    using assms by (simp add: py_str_int_def)
  have d: "?d \<noteq> []" "list_all is_ascii_digit ?d"
    using py_str_nat_digits by auto
  then have l: "is_ascii_digit (last ?d)"
    by (auto simp: list_all_iff)
  have m: "\<not> py_isspace CHR ''-''" "\<not> py_isdigit_char CHR ''-''"
    by (simp_all add: py_isspace_def py_isdigit_char_def)
  have "py_strip (CHR ''-'' # ?d) = CHR ''-'' # ?d"
    unfolding py_strip_def
    using d l digits_not_space m by (intro strip_keeps_unpadded) auto
  then show ?thesis
    using s m by (simp add: normalize_imdb_id_def is_empty_def pd_isna_def py_isdigit_def
        startswith_def)
qed

lemma normalize_bool:
  "normalize_imdb_id EV fr (PBool b) = None"
  by (cases b)
     (simp_all add: normalize_imdb_id_def is_empty_def pd_isna_def py_strip_def py_isspace_def
        py_isdigit_def py_isdigit_char_def startswith_def)

lemma normalize_float:
  assumes "\<not> py_isdigit (py_strip (fr r))" and "\<not> startswith (py_strip (fr r)) ''tt''"
  shows "normalize_imdb_id EV fr (PFloat r) = None"
  using assms by (simp add: normalize_imdb_id_def is_empty_def pd_isna_def)

lemma replicate_unfold: "replicate n x = (if n = 0 then [] else x # replicate (n - 1) x)"
  by (cases n) simp_all

lemma convert_bool:
  "convert_imdb_id (PBool b) = Inr (Some (if b then ''tt0000001'' else ''tt0000000''))"
  by (cases b)
     (simp_all add: format_07d_def py_str_int_def py_zfill_def digit_char_def char_of_eq_iff
        replicate_unfold)


text \<open>
  C5, as the code has it, with either module's sentinel set. \<open>normalize_imdb_id\<close>
  returns \<open>None\<close> for an empty input. Otherwise it decides on the text of the input
  with its leading and trailing whitespace stripped: when that text is all digits, as
  \<open>str.isdigit\<close> has it (superscript digits included), it returns \<open>tt\<close>
  followed by the text zero-padded to width 7; when it starts with
  \<open>tt\<close> it returns the stripped text; in every other case it returns \<open>None\<close>. So a
  non-negative int gives \<open>tt\<close> and its padded digits, and a negative int, a bool and a
  finite float (whose text is neither all digits nor prefixed) give \<open>None\<close>.
  \<open>convert_imdb_id\<close> returns \<open>None\<close> for \<open>None\<close>; a string that starts with
  \<open>tt\<close> unchanged; \<open>tt\<close> followed by the integer, zero-padded to width 7 behind its
  sign, for an int, a bool, a finite float (truncated towards zero) and a string that
  \<open>int()\<close> accepts, such as the decimal text of a number; any other string as it is,
  the empty string included; and on NaN it raises \<open>ValueError\<close>.
\<close>

theorem identifier_normalizers:
  assumes "EV = EMPTY_VALUES_ingest \<or> EV = EMPTY_VALUES_merger"
  shows "(is_empty EV v \<longrightarrow> normalize_imdb_id EV fr v = None)
    \<and> (py_isdigit (py_strip s)
          \<longrightarrow> normalize_imdb_id EV fr (PStr s) = Some (''tt'' @ py_zfill 7 (py_strip s)))
    \<and> (startswith (py_strip s) ''tt'' \<longrightarrow> normalize_imdb_id EV fr (PStr s) = Some (py_strip s))
    \<and> (\<not> py_isdigit (py_strip s) \<and> \<not> startswith (py_strip s) ''tt''
          \<longrightarrow> normalize_imdb_id EV fr (PStr s) = None)
    \<and> (s \<noteq> [] \<and> list_all is_ascii_digit s
          \<longrightarrow> normalize_imdb_id EV fr (PStr s) = Some (''tt'' @ py_zfill 7 s))
    \<and> (0 \<le> n \<longrightarrow> normalize_imdb_id EV fr (PInt n) = Some (''tt'' @ py_zfill 7 (py_str_int n)))
    \<and> (n < 0 \<longrightarrow> normalize_imdb_id EV fr (PInt n) = None)
    \<and> normalize_imdb_id EV fr (PBool b) = None
    \<and> (\<not> py_isdigit (py_strip (fr r)) \<and> \<not> startswith (py_strip (fr r)) ''tt''
          \<longrightarrow> normalize_imdb_id EV fr (PFloat r) = None)
    \<and> convert_imdb_id PNone = Inr None
    \<and> convert_imdb_id PNaN = Inl ValueError
    \<and> convert_imdb_id (PInt n) = Inr (Some (''tt'' @ py_zfill 7 (py_str_int n)))
    \<and> convert_imdb_id (PBool b) = Inr (Some (if b then ''tt0000001'' else ''tt0000000''))
    \<and> convert_imdb_id (PFloat r)
        = Inr (Some (''tt'' @ py_zfill 7 (py_str_int (py_int_of_float r))))
    \<and> convert_imdb_id (PStr (py_str_nat k)) = Inr (Some (''tt'' @ py_zfill 7 (py_str_nat k)))
    \<and> (startswith s ''tt'' \<longrightarrow> convert_imdb_id (PStr s) = Inr (Some s))
    \<and> (\<not> startswith s ''tt'' \<and> py_int_of_str s = Some m
          \<longrightarrow> convert_imdb_id (PStr s) = Inr (Some (''tt'' @ py_zfill 7 (py_str_int m))))
    \<and> (\<not> startswith s ''tt'' \<and> py_int_of_str s = None
          \<longrightarrow> convert_imdb_id (PStr s) = Inr (Some s))"
proof -
  have 1: "is_empty EV v \<longrightarrow> normalize_imdb_id EV fr v = None"
    by (simp add: normalize_imdb_id_def)
  have 2: "py_isdigit (py_strip s)
      \<longrightarrow> normalize_imdb_id EV fr (PStr s) = Some (''tt'' @ py_zfill 7 (py_strip s))"
    using normalize_isdigit [OF assms] by blast
  have 3: "startswith (py_strip s) ''tt'' \<longrightarrow> normalize_imdb_id EV fr (PStr s) = Some (py_strip s)"
    using normalize_tt_stripped [OF assms] by blast
  have 4: "\<not> py_isdigit (py_strip s) \<and> \<not> startswith (py_strip s) ''tt''
      \<longrightarrow> normalize_imdb_id EV fr (PStr s) = None"
    by (simp add: normalize_imdb_id_def)
  have 5: "s \<noteq> [] \<and> list_all is_ascii_digit s
      \<longrightarrow> normalize_imdb_id EV fr (PStr s) = Some (''tt'' @ py_zfill 7 s)"
    using normalize_digit_string [OF assms] by blast
  have 6: "0 \<le> n \<longrightarrow> normalize_imdb_id EV fr (PInt n) = Some (''tt'' @ py_zfill 7 (py_str_int n))"
    using normalize_nonneg_int [OF assms] by blast
  have 7: "n < 0 \<longrightarrow> normalize_imdb_id EV fr (PInt n) = None"
    using normalize_negative_int by blast
  have 8: "normalize_imdb_id EV fr (PBool b) = None"
    by (rule normalize_bool)
  have 9: "\<not> py_isdigit (py_strip (fr r)) \<and> \<not> startswith (py_strip (fr r)) ''tt''
      \<longrightarrow> normalize_imdb_id EV fr (PFloat r) = None"
    using normalize_float by blast
  have 10: "convert_imdb_id PNone = Inr None" "convert_imdb_id PNaN = Inl ValueError"
    by simp_all
  have 11: "convert_imdb_id (PInt n) = Inr (Some (''tt'' @ py_zfill 7 (py_str_int n)))"
    by (simp add: format_07d_def)
  have 12: "convert_imdb_id (PBool b) = Inr (Some (if b then ''tt0000001'' else ''tt0000000''))"
    by (rule convert_bool)
  have 13: "convert_imdb_id (PFloat r)
      = Inr (Some (''tt'' @ py_zfill 7 (py_str_int (py_int_of_float r))))"
    by (simp add: format_07d_def)
  have 14: "convert_imdb_id (PStr (py_str_nat k)) = Inr (Some (''tt'' @ py_zfill 7 (py_str_nat k)))"
    by (rule convert_decimal_string)
  have 15: "startswith s ''tt'' \<longrightarrow> convert_imdb_id (PStr s) = Inr (Some s)"
    by simp
  have 16: "\<not> startswith s ''tt'' \<and> py_int_of_str s = Some m
      \<longrightarrow> convert_imdb_id (PStr s) = Inr (Some (''tt'' @ py_zfill 7 (py_str_int m)))"
    by (simp add: format_07d_def)
  have 17: "\<not> startswith s ''tt'' \<and> py_int_of_str s = None
      \<longrightarrow> convert_imdb_id (PStr s) = Inr (Some s)"
    by simp
  show ?thesis
    using 1 2 3 4 5 6 7 8 9 10 11 12 13 14 15 16 17 by blast
qed

lemmas id_eval = normalize_imdb_id_def is_empty_def pd_isna_def py_str_int_def digit_char_def
  py_strip_def py_isspace_def py_isdigit_def py_isdigit_char_def py_zfill_def char_of_eq_iff Let_def
  startswith_def py_int_of_str_def py_int_isspace_def parse_literal_def is_ascii_digit_def
  digit_value_def format_07d_def EMPTY_VALUES_ingest_def EMPTY_VALUES_merger_def
  replicate_unfold integral_float_repr_def py_int_of_float_def

text \<open>
  C5 as stated fails on both functions. \<open>normalize_imdb_id\<close> returns \<open>None\<close>, not the
  input, for a text that is neither numeric nor prefixed; it returns \<open>None\<close>, not a
  padded number, for a negative int, a bool and the float \<open>76759.0\<close>; and it returns
  a prefixed text without its trailing blank, not unchanged. \<open>convert_imdb_id\<close>
  returns the empty string, which \<open>is_empty\<close> holds of, as it is, and raises on NaN,
  which is empty too.
\<close>

theorem identifier_normalizers_counterexample:
  "normalize_imdb_id EMPTY_VALUES_merger integral_float_repr (PStr ''nm0000123'') = None
   \<and> normalize_imdb_id EMPTY_VALUES_ingest integral_float_repr (PStr ''nm0000123'') = None
   \<and> normalize_imdb_id EMPTY_VALUES_merger integral_float_repr (PInt (- 5)) = None
   \<and> normalize_imdb_id EMPTY_VALUES_merger integral_float_repr (PBool True) = None
   \<and> normalize_imdb_id EMPTY_VALUES_merger integral_float_repr (PFloat 76759) = None
   \<and> normalize_imdb_id EMPTY_VALUES_merger integral_float_repr (PStr ''tt0076759 '')
       = Some ''tt0076759''
   \<and> is_empty EMPTY_VALUES_merger (PStr [])
   \<and> convert_imdb_id (PStr []) = Inr (Some [])
   \<and> is_empty EMPTY_VALUES_merger PNaN
   \<and> convert_imdb_id PNaN = Inl ValueError"
  by (simp add: id_eval)

theorem identifier_normalizers_witness:
  "normalize_imdb_id EMPTY_VALUES_merger integral_float_repr PNone = None
   \<and> normalize_imdb_id EMPTY_VALUES_merger integral_float_repr (PInt 76759) = Some ''tt0076759''
   \<and> normalize_imdb_id EMPTY_VALUES_merger integral_float_repr (PStr '' 76759 '')
       = Some ''tt0076759''
   \<and> normalize_imdb_id EMPTY_VALUES_merger integral_float_repr (PStr ''tt0076759 '')
       = Some ''tt0076759''
   \<and> normalize_imdb_id EMPTY_VALUES_merger integral_float_repr (PFloat 76759) = None
   \<and> convert_imdb_id (PInt 76759) = Inr (Some ''tt0076759'')
   \<and> convert_imdb_id (PFloat 76759) = Inr (Some ''tt0076759'')
   \<and> convert_imdb_id (PStr ''76759'') = Inr (Some ''tt0076759'')
   \<and> convert_imdb_id (PStr ''tt0076759'') = Inr (Some ''tt0076759'')
   \<and> convert_imdb_id (PStr ''nm0000123'') = Inr (Some ''nm0000123'')
   \<and> normalize_imdb_id EMPTY_VALUES_merger integral_float_repr (PStr [CHR 0xB2])
       = Some (''tt000000'' @ [CHR 0xB2])
   \<and> convert_imdb_id (PStr [CHR 0xB2]) = Inr (Some [CHR 0xB2])"
proof -
  let ?fr = integral_float_repr
  have ev: "EMPTY_VALUES_merger = EMPTY_VALUES_ingest \<or> EMPTY_VALUES_merger = EMPTY_VALUES_merger"
    by simp
  note t = identifier_normalizers [OF ev, of PNone ?fr "'' 76759 ''" 76759 True 76759 76759 0]
  note u = identifier_normalizers [OF ev, of PNone ?fr "''tt0076759 ''" 76759 True 76759 76759 0]
  note w = identifier_normalizers [OF ev, of PNone ?fr "''nm0000123''" 76759 True 76759 76759 0]
  note x = identifier_normalizers [OF ev, of PNone ?fr "''tt0076759''" 76759 True 76759 76759 0]
  note y = identifier_normalizers [OF ev, of PNone ?fr "[CHR 0xB2]" 76759 True 76759 76759 0]
  have b: "py_isdigit (py_strip [CHR 0xB2])" "py_strip [CHR 0xB2] = [CHR 0xB2]"
    "py_zfill 7 [CHR 0xB2] = ''000000'' @ [CHR 0xB2]"
    "\<not> startswith [CHR 0xB2] ''tt'' \<and> py_int_of_str [CHR 0xB2] = None"
    by (simp_all add: id_eval)
  have k: "py_str_nat 76759 = ''76759''" and z: "py_zfill 7 ''76759'' = ''0076759''"
    and i: "py_str_int 76759 = ''76759''" and f: "py_int_of_float 76759 = 76759"
    by (simp_all add: id_eval)
  have a: "is_empty EMPTY_VALUES_merger PNone"
    "py_isdigit (py_strip '' 76759 '')" "py_strip '' 76759 '' = ''76759''"
    "startswith (py_strip ''tt0076759 '') ''tt''" "py_strip ''tt0076759 '' = ''tt0076759''"
    "\<not> startswith ''nm0000123'' ''tt'' \<and> py_int_of_str ''nm0000123'' = None"
    "\<not> py_isdigit (py_strip (?fr 76759)) \<and> \<not> startswith (py_strip (?fr 76759)) ''tt''"
    "startswith ''tt0076759'' ''tt''"
    by (simp_all add: id_eval)
  have n1: "normalize_imdb_id EMPTY_VALUES_merger ?fr PNone = None"
    using t a(1) by blast
  have "normalize_imdb_id EMPTY_VALUES_merger ?fr (PInt 76759)
      = Some (''tt'' @ py_zfill 7 (py_str_int 76759))"
    using t by simp
  then have n2: "normalize_imdb_id EMPTY_VALUES_merger ?fr (PInt 76759) = Some ''tt0076759''"
    unfolding i z by simp
  have "normalize_imdb_id EMPTY_VALUES_merger ?fr (PStr '' 76759 '')
      = Some (''tt'' @ py_zfill 7 (py_strip '' 76759 ''))"
    using t a(2) by blast
  then have n3: "normalize_imdb_id EMPTY_VALUES_merger ?fr (PStr '' 76759 '') = Some ''tt0076759''"
    unfolding a(3) z by simp
  have "normalize_imdb_id EMPTY_VALUES_merger ?fr (PStr ''tt0076759 '')
      = Some (py_strip ''tt0076759 '')"
    using u a(4) by blast
  then have n4: "normalize_imdb_id EMPTY_VALUES_merger ?fr (PStr ''tt0076759 '')
      = Some ''tt0076759''"
    unfolding a(5) .
  have n5: "normalize_imdb_id EMPTY_VALUES_merger ?fr (PFloat 76759) = None"
    using t a(7) by blast
  have "convert_imdb_id (PInt 76759) = Inr (Some (''tt'' @ py_zfill 7 (py_str_int 76759)))"
    using t by blast
  then have c1: "convert_imdb_id (PInt 76759) = Inr (Some ''tt0076759'')"
    unfolding i z by simp
  have "convert_imdb_id (PFloat 76759)
      = Inr (Some (''tt'' @ py_zfill 7 (py_str_int (py_int_of_float 76759))))"
    using t by blast
  then have c2: "convert_imdb_id (PFloat 76759) = Inr (Some ''tt0076759'')"
    unfolding f i z by simp
  have "convert_imdb_id (PStr (py_str_nat 76759))
      = Inr (Some (''tt'' @ py_zfill 7 (py_str_nat 76759)))"
    using t by blast
  then have c3: "convert_imdb_id (PStr ''76759'') = Inr (Some ''tt0076759'')"
    unfolding k z by simp
  have c4: "convert_imdb_id (PStr ''tt0076759'') = Inr (Some ''tt0076759'')"
    using x a(8) by blast
  have c5: "convert_imdb_id (PStr ''nm0000123'') = Inr (Some ''nm0000123'')"
    using w a(6) by blast
  have "normalize_imdb_id EMPTY_VALUES_merger ?fr (PStr [CHR 0xB2])
      = Some (''tt'' @ py_zfill 7 (py_strip [CHR 0xB2]))"
    using y b(1) by blast
  then have n6: "normalize_imdb_id EMPTY_VALUES_merger ?fr (PStr [CHR 0xB2])
      = Some (''tt000000'' @ [CHR 0xB2])"
    unfolding b(2) b(3) by simp
  have c6: "convert_imdb_id (PStr [CHR 0xB2]) = Inr (Some [CHR 0xB2])"
    using y b(4) by blast
  show ?thesis
    using n1 n2 n3 n4 n5 c1 c2 c3 c4 c5 n6 c6 by blast
qed

section \<open>A batch of an unknown source\<close>






section \<open>Marking a file as processed\<close>

text \<open>Nothing below \<open>process_file\<close> touches the processed set or the error list.\<close>

lemma handle_platform_changes_keeps:
  "processed_files (snd (handle_platform_changes W e data)) = processed_files e
   \<and> errors (stats (snd (handle_platform_changes W e data))) = errors (stats e)"
  by (auto simp: handle_platform_changes_def Let_def split: json.splits sum.splits prod.splits)

lemma handle_flixpatrol_titles_keeps:
  "processed_files (snd (handle_flixpatrol_titles W e data)) = processed_files e
   \<and> errors (stats (snd (handle_flixpatrol_titles W e data))) = errors (stats e)"
  by (auto simp: handle_flixpatrol_titles_def Let_def split: sum.splits prod.splits)

lemma update_countries_keeps:
  "processed_files (snd (update_countries W e kvs)) = processed_files e
   \<and> errors (stats (snd (update_countries W e kvs))) = errors (stats e)"
  by (induction W e kvs rule: update_countries.induct)
     (auto split: sum.splits prod.splits)

lemma execute_decision_keeps:
  "processed_files (snd (execute_decision W e decision data)) = processed_files e
   \<and> errors (stats (snd (execute_decision W e decision data))) = errors (stats e)"
proof (cases "action decision = ''skip''")
  case True
  then show ?thesis by (simp add: execute_decision_def)
next
  case ns: False
  let ?e1 = "ensure_writers e"
  have e1: "processed_files ?e1 = processed_files e" "errors (stats ?e1) = errors (stats e)"
    by (simp_all add: ensure_writers_def)
  show ?thesis
  proof (cases "data_type decision = PLATFORM_CHANGES")
    case True
    then show ?thesis
      using ns handle_platform_changes_keeps [of W ?e1 data] e1
      by (simp add: execute_decision_def Let_def)
  next
    case np: False
    show ?thesis
    proof (cases "data_type decision = FLIXPATROL_TITLES")
      case True
      then show ?thesis
        using ns np handle_flixpatrol_titles_keeps [of W ?e1 data] e1
        by (simp add: execute_decision_def Let_def)
    next
      case nf: False
      consider (bfd) "target_db decision = ''BFD''"
        | (views) "target_db decision = ''VIEWS_TRAINING''"
        | (abstract) "target_db decision = ''ABSTRACT_DATA''"
        | (components) "target_db decision = ''COMPONENTS''"
        | (other) "target_db decision \<noteq> ''BFD''" "target_db decision \<noteq> ''VIEWS_TRAINING''"
            "target_db decision \<noteq> ''ABSTRACT_DATA''" "target_db decision \<noteq> ''COMPONENTS''"
        by blast
      then show ?thesis
      proof cases
        case bfd
        obtain r w' where c: "merge_to_bfd W (normalize_to_records data (data_type decision))
            (key_field decision) (world ?e1) = (r, w')"
          by (cases "merge_to_bfd W (normalize_to_records data (data_type decision))
            (key_field decision) (world ?e1)")
        show ?thesis
          using ns np nf e1 bfd c
          by (cases r) (simp_all add: execute_decision_def Let_def)
      next
        case views
        obtain r w' where c: "append_to_views_training W
            (normalize_to_records data (data_type decision))
            (before_underscore (source_file decision)) (world ?e1) = (r, w')"
          by (cases "append_to_views_training W
            (normalize_to_records data (data_type decision))
            (before_underscore (source_file decision)) (world ?e1)")
        show ?thesis
          using ns np nf e1 views c
          by (cases r) (simp_all add: execute_decision_def Let_def)
      next
        case abstract
        obtain r w' where c: "append_to_abstract_data W
            (normalize_to_records data (data_type decision))
            (value_of (data_type decision)) (world ?e1) = (r, w')"
          by (cases "append_to_abstract_data W
            (normalize_to_records data (data_type decision))
            (value_of (data_type decision)) (world ?e1)")
        show ?thesis
          using ns np nf e1 abstract c
          by (cases r) (simp_all add: execute_decision_def Let_def)
      next
        case components
        show ?thesis
        proof (cases data)
          case (JDict kvs)
          obtain r e2 where c: "update_countries W ?e1 kvs = (r, e2)"
            by (cases "update_countries W ?e1 kvs")
          have "processed_files e2 = processed_files e \<and> errors (stats e2) = errors (stats e)"
            using update_countries_keeps [of W ?e1 kvs] c e1 by simp
          then show ?thesis
            using ns np nf components JDict c
            by (cases r) (simp_all add: execute_decision_def Let_def)
        qed (use ns np nf e1 components in \<open>simp_all add: execute_decision_def Let_def\<close>)
      next
        case other
        then show ?thesis
          using ns np nf e1 by (simp add: execute_decision_def Let_def)
      qed
    qed
  qed
qed

lemma route_batch_keeps:
  "processed_files (snd (route_batch W e source batch_type data filename)) = processed_files e
   \<and> errors (stats (snd (route_batch W e source batch_type data filename))) = errors (stats e)"
proof (cases "batch_count data")
  case (Inl x)
  then show ?thesis by (simp add: route_batch_def)
next
  case (Inr cnt)
  show ?thesis
  proof (cases "detect source batch_type (if is_dict data then data else JNull)")
    case (Inl x)
    then show ?thesis using Inr by (simp add: route_batch_def)
  next
    case r: (Inr p)
    obtain dt skip where p: "p = (dt, skip)" by (cases p)
    let ?d = "(route dt filename cnt skip)
          \<lparr>reason := Batch_to source batch_type (target_db (route dt filename cnt skip))\<rparr>"
    obtain u e' where x: "execute_decision W e ?d data = (u, e')"
      by (cases "execute_decision W e ?d data")
    have "processed_files e' = processed_files e \<and> errors (stats e') = errors (stats e)"
      using execute_decision_keeps [of W e ?d data] x by simp
    then show ?thesis
      using Inr r p x by (cases u) (simp_all add: route_batch_def Let_def)
  qed
qed

lemma process_batches_keeps:
  "processed_files (snd (process_batches W e filename dsrc items ds)) = processed_files e
   \<and> errors (stats (snd (process_batches W e filename dsrc items ds))) = errors (stats e)"
proof (induction items arbitrary: e ds)
  case Nil
  then show ?case by simp
next
  case (Cons batch rest)
  show ?case
  proof (cases "py_get batch ''source'' dsrc")
    case (Inl x)
    then show ?thesis by simp
  next
    case s: (Inr source)
    show ?thesis
    proof (cases "py_get batch ''type'' (JStr ''default'')")
      case (Inl x)
      then show ?thesis using s by simp
    next
      case t: (Inr batch_type)
      show ?thesis
      proof (cases "py_get batch ''data'' batch")
        case (Inl x)
        then show ?thesis using s t by simp
      next
        case d: (Inr batch_data)
        obtain r e' where rb: "route_batch W e source batch_type batch_data filename = (r, e')"
          by (cases "route_batch W e source batch_type batch_data filename")
        have k: "processed_files e' = processed_files e \<and> errors (stats e') = errors (stats e)"
          using route_batch_keeps [of W e source batch_type batch_data filename] rb by simp
        show ?thesis
        proof (cases r)
          case (Inl x)
          then show ?thesis using s t d rb k by simp
        next
          case (Inr decision)
          then show ?thesis
            using s t d rb k Cons.IH [of e' "ds @ [decision]"] by simp
        qed
      qed
    qed
  qed
qed

lemma process_json_keeps:
  "processed_files (snd (process_json W e file)) = processed_files e
   \<and> errors (stats (snd (process_json W e file))) = errors (stats e)"
proof (cases "f_json file")
  case None
  then show ?thesis by (simp add: process_json_def)
next
  case (Some data)
  show ?thesis
  proof (cases data)
    case (JList items)
    then show ?thesis
      using Some process_batches_keeps [of W e "f_name file" "JStr ''unknown''" items "[]"]
      by (simp add: process_json_def)
  next
    case (JDict kvs)
    show ?thesis
    proof (cases "dict_has kvs ''results''")
      case True
      show ?thesis
      proof (cases "py_iter (dict_get kvs ''results'' JNull)")
        case (Inl x)
        then show ?thesis using Some JDict True by (simp add: process_json_def)
      next
        case (Inr items)
        then show ?thesis
          using Some JDict True
            process_batches_keeps [of W e "f_name file"
              "JStr (before_underscore (stem (f_name file)))" items "[]"]
          by (simp add: process_json_def)
      qed
    next
      case False
      obtain r e' where rb: "route_batch W e (JStr (before_underscore (stem (f_name file))))
            (JStr ''default'') data (f_name file) = (r, e')"
        by (cases "route_batch W e (JStr (before_underscore (stem (f_name file))))
            (JStr ''default'') data (f_name file)")
      have "processed_files e' = processed_files e \<and> errors (stats e') = errors (stats e)"
        using route_batch_keeps [of W e "JStr (before_underscore (stem (f_name file)))"
            "JStr ''default''" data "f_name file"] rb by simp
      then show ?thesis
        using Some JDict False rb by (cases r) (simp_all add: process_json_def)
    qed
  qed (use Some in \<open>simp_all add: process_json_def\<close>)
qed

lemma process_parquet_keeps:
  "processed_files (snd (process_parquet W e file)) = processed_files e
   \<and> errors (stats (snd (process_parquet W e file))) = errors (stats e)"
proof -
  obtain r w' where rp: "read_parquet W (f_name file) (world (ensure_writers e)) = (r, w')"
    by (cases "read_parquet W (f_name file) (world (ensure_writers e))")
  show ?thesis
  proof (cases r)
    case (Inl x)
    then show ?thesis
      using rp by (simp add: process_parquet_def Let_def ensure_writers_def)
  next
    case (Inr n)
    let ?d = "if py_contains ''cranberry_fresh'' (f_name file)
              then route TITLE_METADATA (f_name file) n []
              else route UNKNOWN (f_name file) n ''unknown_data_type''"
    obtain u e' where x: "execute_decision W ((ensure_writers e)\<lparr>world := w'\<rparr>) ?d (JList []) = (u, e')"
      by (cases "execute_decision W ((ensure_writers e)\<lparr>world := w'\<rparr>) ?d (JList [])")
    have "processed_files e' = processed_files e \<and> errors (stats e') = errors (stats e)"
      using execute_decision_keeps [of W "(ensure_writers e)\<lparr>world := w'\<rparr>" ?d "JList []"] x
      by (simp add: ensure_writers_def)
    then show ?thesis
      using rp Inr x by (cases u) (simp_all add: process_parquet_def Let_def)
  qed
qed

lemma try_body_keeps:
  "processed_files (snd (try_body W e file)) = processed_files e
   \<and> errors (stats (snd (try_body W e file))) = errors (stats e)"
  using process_json_keeps [of W e "file"] process_parquet_keeps [of W e "file"]
  by (simp add: try_body_def)

lemma process_file_done:
  assumes "try_body W e file = (Inr decisions, e')"
  shows "fst (process_file W e file) = decisions"
    and "processed_files (snd (process_file W e file)) = insert (f_name file) (processed_files e)"
    and "errors (stats (snd (process_file W e file))) = errors (stats e)"
  using assms try_body_keeps [of W e "file"] by (simp_all add: process_file_def)

lemma process_file_failed:
  assumes "try_body W e file = (Inl x, e')"
  shows "fst (process_file W e file) = []"
    and "processed_files (snd (process_file W e file)) = processed_files e"
    and "errors (stats (snd (process_file W e file))) = errors (stats e) @ [(f_name file, x)]"
  using assms try_body_keeps [of W e "file"] by (simp_all add: process_file_def)

text \<open>
  C9, as the code has it. When the body of the \<open>try\<close> runs to its end, whether its
  batches were merged, appended or skipped, the file is added to the processed-file set,
  its decisions are returned and the error list is as before. When parsing or the
  execution of a batch raises, the exception is recorded in the error list with the file
  name, no decision is returned, and the processed-file set is exactly what it was: the
  files marked before stay marked, and the failing file is not added.
\<close>

theorem processed_marking:
  "(try_body W e file = (Inr decisions, e')
      \<longrightarrow> fst (process_file W e file) = decisions
        \<and> processed_files (snd (process_file W e file)) = insert (f_name file) (processed_files e)
        \<and> errors (stats (snd (process_file W e file))) = errors (stats e))
   \<and> (try_body W e file = (Inl x, e')
      \<longrightarrow> fst (process_file W e file) = []
        \<and> processed_files (snd (process_file W e file)) = processed_files e
        \<and> errors (stats (snd (process_file W e file))) = errors (stats e) @ [(f_name file, x)])"
  using process_file_done [of W e "file" decisions e'] process_file_failed [of W e "file" x e']
  by blast

lemmas engine_eval = process_file_def try_body_def process_json_def suffix_of_def last_dot_def
  dict_get_def dict_has_def route_batch_def batch_count_def detect_def
  detect_fallback_def SOURCE_MAPPING_def py_lower_def py_lower_char_def char_of_eq_iff
  route_def execute_decision_def ensure_writers_def handle_platform_changes_def
  handle_flixpatrol_titles_def flixpatrol_records_def new_engine_def new_stats_def
  demo_writers_def demo_result_def Let_def

lemma null_shows_body:
  "try_body demo_writers (new_engine False None 0) null_shows_file
     = (Inl TypeError, (new_engine False None 0)\<lparr>writers := True\<rparr>)"
  by (simp add: null_shows_file_def engine_eval)

lemma unknown_body:
  "fst (try_body demo_writers (new_engine False None 0) unknown_file)
     = Inr [(route UNKNOWN ''fresh_data_20260115.json'' 1 ''unknown_source'')
              \<lparr>reason := Batch_to (JStr ''unknown_api'') (JStr ''x'') ''SKIP''\<rparr>]"
  by (simp add: unknown_file_def engine_eval)

text \<open>
  C9 as stated fails: a file that parses, and whose platform-changes batch carries
  \<open>shows: null\<close>, raises \<open>TypeError\<close> while the batch is executed (\<open>len(shows)\<close> in
  \<open>_handle_platform_changes\<close>); the error is recorded and the file is not added to the
  processed-file set.
\<close>

theorem processed_marking_counterexample:
  "f_json null_shows_file \<noteq> None
   \<and> f_name null_shows_file
       \<notin> processed_files (snd (process_file demo_writers (new_engine False None 0) null_shows_file))
   \<and> errors (stats (snd (process_file demo_writers (new_engine False None 0) null_shows_file)))
       = [(''streaming_availability_20260115.json'', TypeError)]"
  by (simp add: process_file_def null_shows_body)
     (simp add: null_shows_file_def new_engine_def new_stats_def)

theorem processed_marking_witness:
  "processed_files (snd (process_file demo_writers (new_engine False None 0) unknown_file))
     = {''fresh_data_20260115.json''}
   \<and> errors (stats (snd (process_file demo_writers (new_engine False None 0) unknown_file))) = []
   \<and> processed_files (snd (process_file demo_writers (new_engine False None 0) null_shows_file)) = {}
   \<and> errors (stats (snd (process_file demo_writers (new_engine False None 0) null_shows_file)))
       = [(''streaming_availability_20260115.json'', TypeError)]"
proof -
  let ?e = "new_engine False None (0::nat)"
  let ?d = "[(route UNKNOWN ''fresh_data_20260115.json'' 1 ''unknown_source'')
              \<lparr>reason := Batch_to (JStr ''unknown_api'') (JStr ''x'') ''SKIP''\<rparr>]"
  have u: "try_body demo_writers ?e unknown_file = (Inr ?d, snd (try_body demo_writers ?e unknown_file))"
    using unknown_body by (metis prod.collapse)
  have n: "f_name unknown_file = ''fresh_data_20260115.json''"
    "f_name null_shows_file = ''streaming_availability_20260115.json''"
    by (simp_all add: unknown_file_def null_shows_file_def)
  have s: "processed_files ?e = {}" "errors (stats ?e) = []"
    by (simp_all add: new_engine_def new_stats_def)
  show ?thesis
    using processed_marking [of demo_writers ?e unknown_file ?d
        "snd (try_body demo_writers ?e unknown_file)" TypeError]
      processed_marking [of demo_writers ?e null_shows_file "[]"
        "?e\<lparr>writers := True\<rparr>" TypeError]
      u null_shows_body n s
    by simp
qed

section \<open>Discovery and re-runs\<close>

lemma discover_excludes:
  assumes "h \<in> set (fst (discover_fresh_files e dir d))"
  shows "f_name h \<notin> processed_files e"
  using assms by (auto simp: discover_fresh_files_def Let_def split: option.splits if_splits)

lemma discover_again:
  assumes "h \<in> set (fst (discover_fresh_files e dir d))" and "f_name h \<notin> processed_files e'"
  shows "h \<in> set (fst (discover_fresh_files e' dir d))"
  using assms by (auto simp: discover_fresh_files_def Let_def split: option.splits if_splits)

lemma concat_filter_dir:
  "concat (map (\<lambda>p. filter (A p) (filter R dir)) ps)
     = filter R (concat (map (\<lambda>p. filter (A p) dir) ps))"
  by (induction ps) (auto simp: conj_commute)

lemma discover_independent:
  assumes "f_name g \<in> processed_files e"
  shows "discover_fresh_files e (filter (\<lambda>h. f_name h \<noteq> f_name g) dir) d
     = discover_fresh_files e dir d"
proof -
  have a: "\<And>xs. filter (\<lambda>x. f_name x \<noteq> f_name g \<and> f_name x \<notin> processed_files e) xs
      = filter (\<lambda>f. f_name f \<notin> processed_files e) xs"
    using assms by (auto intro!: filter_cong)
  have b: "\<And>D xs. filter (\<lambda>x. f_name x \<noteq> f_name g \<and> D x \<and> f_name x \<notin> processed_files e) xs
      = filter (\<lambda>x. D x \<and> f_name x \<notin> processed_files e) xs"
    using assms by (auto intro!: filter_cong)
  show ?thesis
    unfolding discover_fresh_files_def Let_def concat_filter_dir
    by (cases d) (simp_all add: a b)
qed

lemma discover_all_processed:
  assumes "\<forall>h \<in> set dir. f_name h \<in> processed_files e"
  shows "fst (discover_fresh_files e dir d) = []"
proof -
  have "set (fst (discover_fresh_files e dir d)) = {}"
    using assms by (auto simp: discover_fresh_files_def Let_def split: option.splits if_splits)
  then show ?thesis by simp
qed

lemma discover_engine:
  "snd (discover_fresh_files e dir d) = e\<lparr>discovered_files := fst (discover_fresh_files e dir d)\<rparr>"
  by (simp add: discover_fresh_files_def Let_def)

lemma process_file_outcome:
  "processed_files e \<subseteq> processed_files (snd (process_file W e f))
   \<and> set (errors (stats e)) \<subseteq> set (errors (stats (snd (process_file W e f))))
   \<and> (f_name f \<in> processed_files (snd (process_file W e f))
      \<or> (\<exists>x. (f_name f, x) \<in> set (errors (stats (snd (process_file W e f))))))"
proof -
  obtain r e' where t: "try_body W e f = (r, e')"
    by (cases "try_body W e f")
  show ?thesis
  proof (cases r)
    case (Inl x)
    then show ?thesis
      using process_file_failed [of W e f x e'] t by auto
  next
    case (Inr ds)
    then show ?thesis
      using process_file_done [of W e f ds e'] t by auto
  qed
qed

lemma process_files_outcome:
  "processed_files e \<subseteq> processed_files (process_files W e files)
   \<and> set (errors (stats e)) \<subseteq> set (errors (stats (process_files W e files)))
   \<and> (\<forall>h \<in> set files. f_name h \<in> processed_files (process_files W e files)
        \<or> (\<exists>x. (f_name h, x) \<in> set (errors (stats (process_files W e files)))))"
proof (induction files arbitrary: e)
  case Nil
  then show ?case by simp
next
  case (Cons f rest)
  obtain ds e' where p: "process_file W e f = (ds, e')"
    by (cases "process_file W e f")
  let ?e2 = "e'\<lparr>all_decisions := all_decisions e' @ ds\<rparr>"
  have o: "processed_files e \<subseteq> processed_files ?e2"
    "set (errors (stats e)) \<subseteq> set (errors (stats ?e2))"
    "f_name f \<in> processed_files ?e2 \<or> (\<exists>x. (f_name f, x) \<in> set (errors (stats ?e2)))"
    using process_file_outcome [of e W f] p by simp_all
  have r: "process_files W e (f # rest) = process_files W ?e2 rest"
    using p by simp
  show ?case
    unfolding r using o Cons.IH [of ?e2] by (auto simp del: process_files.simps)
qed


section \<open>Re-running over processed files\<close>

lemma run_saves_state:
  assumes "run W e0 dir today df pa True sf0 = (e1, sf1)"
    and "g \<in> set (fst (discover_fresh_files e0 dir (effective_filter today df pa)))"
  shows "sf1 = Some (processed_files e1)"
    and "e1 = process_files W (snd (discover_fresh_files e0 dir (effective_filter today df pa)))
                (fst (discover_fresh_files e0 dir (effective_filter today df pa)))"
proof -
  obtain files e' where d: "discover_fresh_files e0 dir (effective_filter today df pa) = (files, e')"
    by (cases "discover_fresh_files e0 dir (effective_filter today df pa)")
  have ne: "files \<noteq> []"
    using assms(2) d by auto
  show "sf1 = Some (processed_files e1)"
    using assms(1) d ne by (auto simp: run_def Let_def save_state_def)
  show "e1 = process_files W (snd (discover_fresh_files e0 dir (effective_filter today df pa)))
                (fst (discover_fresh_files e0 dir (effective_filter today df pa)))"
    using assms(1) d ne by (auto simp: run_def Let_def)
qed

lemma run_independent:
  assumes "f_name g \<in> processed_files e"
  shows "run W e (filter (\<lambda>h. f_name h \<noteq> f_name g) dir) today df pa wr sf
     = run W e dir today df pa wr sf"
  by (simp add: run_def discover_independent [OF assms])

lemma run_nothing_left:
  assumes "\<forall>h \<in> set dir. f_name h \<in> processed_files e"
  shows "run W e dir today df pa wr sf = (e\<lparr>discovered_files := []\<rparr>, sf)"
proof -
  have "discover_fresh_files e dir (effective_filter today df pa) = ([], e\<lparr>discovered_files := []\<rparr>)"
    using discover_all_processed [OF assms, of "effective_filter today df pa"]
      discover_engine [of e dir "effective_filter today df pa"]
    by (metis prod.collapse)
  then show ?thesis
    by (simp add: run_def)
qed

text \<open>
  C8, as the code has it: the exclusion holds for the files that the run left marked
  as processed. Take a run that can write its state file, a file \<open>g\<close> that the run
  discovered, and suppose the run left \<open>g\<close> marked as processed. Then the state file
  holds the processed-file set of the run, and for any engine started from that state
  file, over any directory listing, date tag and writers: the name of \<open>g\<close> is in its
  processed set; discovery returns no file of that name; the run is the same as the
  run over the listing without \<open>g\<close>, so nothing it does, no MergeResult among it,
  comes from \<open>g\<close>; and when every file of the listing was marked, the run makes no
  decision and no MergeResult at all. Every file the first run discovered is, at its
  end, either marked as processed or named in the error list; and a file it discovered
  and did not mark is discovered again by an engine started from the state file, over
  the same listing with the same date tag.
\<close>

theorem rerun_excludes_processed_file:
  assumes "run W e0 dir today df pa True sf0 = (e1, sf1)"
    and "g \<in> set (fst (discover_fresh_files e0 dir (effective_filter today df pa)))"
    and "f_name g \<in> processed_files e1"
  shows "sf1 = Some (processed_files e1)
    \<and> f_name g \<in> processed_files (new_engine dry2 sf1 w2)
    \<and> (\<forall>h \<in> set (fst (discover_fresh_files (new_engine dry2 sf1 w2) dir2 d2)).
          f_name h \<noteq> f_name g)
    \<and> run W2 (new_engine dry2 sf1 w2) dir2 today2 df2 pa2 wr2 sf1
        = run W2 (new_engine dry2 sf1 w2) (filter (\<lambda>h. f_name h \<noteq> f_name g) dir2)
            today2 df2 pa2 wr2 sf1
    \<and> ((\<forall>h \<in> set dir2. f_name h \<in> processed_files e1)
        \<longrightarrow> merge_results (stats (fst (run W2 (new_engine dry2 sf1 w2) dir2 today2 df2 pa2 wr2 sf1)))
              = []
          \<and> all_decisions (fst (run W2 (new_engine dry2 sf1 w2) dir2 today2 df2 pa2 wr2 sf1)) = [])
    \<and> (\<forall>h \<in> set (fst (discover_fresh_files e0 dir (effective_filter today df pa))).
          f_name h \<in> processed_files e1 \<or> (\<exists>x. (f_name h, x) \<in> set (errors (stats e1))))
    \<and> (\<forall>h \<in> set (fst (discover_fresh_files e0 dir (effective_filter today df pa))).
          f_name h \<notin> processed_files e1
          \<longrightarrow> h \<in> set (fst (discover_fresh_files (new_engine dry2 sf1 w2) dir
                  (effective_filter today df pa))))"
proof -
  let ?e2 = "new_engine dry2 sf1 w2"
  have s: "sf1 = Some (processed_files e1)"
    using run_saves_state(1) [OF assms(1,2)] .
  have p2: "processed_files ?e2 = processed_files e1"
    by (simp add: new_engine_def s)
  have m: "f_name g \<in> processed_files ?e2"
    using assms(3) p2 by simp
  have x: "\<forall>h \<in> set (fst (discover_fresh_files ?e2 dir2 d2)). f_name h \<noteq> f_name g"
  proof
    fix h
    assume "h \<in> set (fst (discover_fresh_files ?e2 dir2 d2))"
    then have "f_name h \<notin> processed_files ?e2"
      by (rule discover_excludes)
    then show "f_name h \<noteq> f_name g"
      using m by metis
  qed
  have i: "run W2 ?e2 dir2 today2 df2 pa2 wr2 sf1
        = run W2 ?e2 (filter (\<lambda>h. f_name h \<noteq> f_name g) dir2) today2 df2 pa2 wr2 sf1"
    using run_independent [OF m, of W2 dir2 today2 df2 pa2 wr2 sf1] by simp
  have n: "(\<forall>h \<in> set dir2. f_name h \<in> processed_files e1)
        \<longrightarrow> merge_results (stats (fst (run W2 ?e2 dir2 today2 df2 pa2 wr2 sf1))) = []
          \<and> all_decisions (fst (run W2 ?e2 dir2 today2 df2 pa2 wr2 sf1)) = []"
  proof
    assume "\<forall>h \<in> set dir2. f_name h \<in> processed_files e1"
    then have "\<forall>h \<in> set dir2. f_name h \<in> processed_files ?e2"
      using p2 by simp
    then have "run W2 ?e2 dir2 today2 df2 pa2 wr2 sf1 = (?e2\<lparr>discovered_files := []\<rparr>, sf1)"
      by (rule run_nothing_left)
    then show "merge_results (stats (fst (run W2 ?e2 dir2 today2 df2 pa2 wr2 sf1))) = []
          \<and> all_decisions (fst (run W2 ?e2 dir2 today2 df2 pa2 wr2 sf1)) = []"
      by (simp add: new_engine_def new_stats_def)
  qed
  let ?d = "discover_fresh_files e0 dir (effective_filter today df pa)"
  have "e1 = process_files W (snd ?d) (fst ?d)"
    using run_saves_state(2) [OF assms(1,2)] .
  then have o: "\<forall>h \<in> set (fst ?d).
          f_name h \<in> processed_files e1 \<or> (\<exists>x. (f_name h, x) \<in> set (errors (stats e1)))"
    using process_files_outcome [of "snd ?d" W "fst ?d"] by simp
  have a: "\<forall>h \<in> set (fst ?d). f_name h \<notin> processed_files e1
          \<longrightarrow> h \<in> set (fst (discover_fresh_files ?e2 dir (effective_filter today df pa)))"
    using discover_again [of _ e0 dir "effective_filter today df pa" ?e2] p2 by simp
  show ?thesis
    using s m x i n o a by blast
qed

lemmas run_eval = run_def effective_filter_def discover_fresh_files_def patterns_def glob_match_def
  demo_dir_def unknown_file_def flixpatrol_file_def null_shows_file_def save_state_def
  engine_eval

text \<open>
  C8 as stated fails for a file that the run worked on without marking it. The first
  batch of \<open>half_failing_file\<close> is merged and the second raises, so the file is named
  in the error list and not in the processed set; the state is saved without it, the
  second run discovers the file again and merges its first batch a second time.
\<close>

theorem rerun_excludes_processed_file_counterexample:
  "length (merge_results (stats (fst (run demo_writers (new_engine False None 0)
      [half_failing_file] ''20260116'' None True True None)))) = 1
   \<and> world (fst (run demo_writers (new_engine False None 0)
      [half_failing_file] ''20260116'' None True True None)) = 1
   \<and> map fst (errors (stats (fst (run demo_writers (new_engine False None 0)
      [half_failing_file] ''20260116'' None True True None)))) = [''fresh_data_20260116.json'']
   \<and> snd (run demo_writers (new_engine False None 0)
      [half_failing_file] ''20260116'' None True True None) = Some {}
   \<and> fst (discover_fresh_files (new_engine False (Some {}) (1::nat)) [half_failing_file] None)
      = [half_failing_file]
   \<and> length (merge_results (stats (fst (run demo_writers (new_engine False (Some {}) 1)
      [half_failing_file] ''20260117'' None True True (Some {}))))) = 1
   \<and> world (fst (run demo_writers (new_engine False (Some {}) 1)
      [half_failing_file] ''20260117'' None True True (Some {}))) = 2"
  by (simp add: run_eval half_failing_file_def)

lemma demo_discover:
  "fst (discover_fresh_files (new_engine False None (0::nat)) demo_dir None)
     = [unknown_file, flixpatrol_file, null_shows_file]"
  by (simp add: discover_fresh_files_def patterns_def glob_match_def demo_dir_def unknown_file_def
      flixpatrol_file_def null_shows_file_def new_engine_def Let_def)

lemma demo_run1:
  "processed_files (fst (run demo_writers (new_engine False None 0) demo_dir ''20260115'' None
      True True None)) = {''flixpatrol_20260115.json'', ''fresh_data_20260115.json''}"
  "length (merge_results (stats (fst (run demo_writers (new_engine False None 0) demo_dir
      ''20260115'' None True True None)))) = 1"
  by (simp_all add: run_eval)

lemma demo_run2:
  "merge_results (stats (fst (run demo_writers
      (new_engine False (Some {''flixpatrol_20260115.json'', ''fresh_data_20260115.json''}) 0)
      demo_dir ''20260116'' None True True
      (Some {''flixpatrol_20260115.json'', ''fresh_data_20260115.json''})))) = []"
  "map f_name (fst (discover_fresh_files
      (new_engine False (Some {''flixpatrol_20260115.json'', ''fresh_data_20260115.json''}) (0::nat))
      demo_dir None)) = [''streaming_availability_20260115.json'']"
  by (simp_all add: run_eval)

theorem rerun_excludes_processed_file_witness:
  "snd (run demo_writers (new_engine False None 0) demo_dir ''20260115'' None True True None)
     = Some {''flixpatrol_20260115.json'', ''fresh_data_20260115.json''}
   \<and> length (merge_results (stats (fst (run demo_writers (new_engine False None 0) demo_dir
        ''20260115'' None True True None)))) = 1
   \<and> map f_name (fst (discover_fresh_files
        (new_engine False (Some {''flixpatrol_20260115.json'', ''fresh_data_20260115.json''}) (0::nat))
        demo_dir None)) = [''streaming_availability_20260115.json'']
   \<and> merge_results (stats (fst (run demo_writers
        (new_engine False (Some {''flixpatrol_20260115.json'', ''fresh_data_20260115.json''}) 0)
        demo_dir ''20260116'' None True True
        (Some {''flixpatrol_20260115.json'', ''fresh_data_20260115.json''})))) = []"
proof -
  let ?r1 = "run demo_writers (new_engine False None 0) demo_dir ''20260115'' None True True None"
  have r: "?r1 = (fst ?r1, snd ?r1)"
    by simp
  have f: "effective_filter ''20260115'' None True = None"
    by (simp add: effective_filter_def)
  have g: "flixpatrol_file \<in> set (fst (discover_fresh_files (new_engine False None (0::nat)) demo_dir
      (effective_filter ''20260115'' None True)))"
    unfolding f demo_discover by simp
  have m: "f_name flixpatrol_file \<in> processed_files (fst ?r1)"
    unfolding demo_run1(1) by (simp add: flixpatrol_file_def)
  have "snd ?r1 = Some (processed_files (fst ?r1))"
    by (rule rerun_excludes_processed_file [OF r g m, THEN conjunct1])
  then have "snd ?r1 = Some {''flixpatrol_20260115.json'', ''fresh_data_20260115.json''}"
    unfolding demo_run1(1) .
  then show ?thesis
    using demo_run1(2) demo_run2 by blast
qed


end
